theory Spec2Isabelle
  imports Complex_Main "HOL-Library.Word" "HOL-Library.Log_Nat"
begin

section \<open>Four-lane registers\<close>

text \<open>
  The kernel \<^verbatim>\<open>Triangle4Intersector4MoellerTrumbore\<close> works on SSE registers of
  four lanes: \<^verbatim>\<open>ssef\<close> (four floats), \<^verbatim>\<open>sseb\<close> (four booleans) and \<^verbatim>\<open>ssei\<close>
  (four 32-bit integers). A register is a value with four components, read with
  \<^verbatim>\<open>operator[]\<close>.
\<close>

datatype lane = L0 | L1 | L2 | L3

datatype 'a vec4 = Vec4 'a 'a 'a 'a

type_synonym sseb = "bool vec4"
type_synonym ssei = "32 word vec4"

fun lane_at :: "'a vec4 \<Rightarrow> lane \<Rightarrow> 'a" where
  "lane_at (Vec4 a b c d) L0 = a"
| "lane_at (Vec4 a b c d) L1 = b"
| "lane_at (Vec4 a b c d) L2 = c"
| "lane_at (Vec4 a b c d) L3 = d"

text \<open>The broadcast constructor \<^verbatim>\<open>ssef(a)\<close>.\<close>

definition splat :: "'a \<Rightarrow> 'a vec4" where
  "splat a = Vec4 a a a a"

fun lift1 :: "('a \<Rightarrow> 'b) \<Rightarrow> 'a vec4 \<Rightarrow> 'b vec4" where
  "lift1 f (Vec4 a0 a1 a2 a3) = Vec4 (f a0) (f a1) (f a2) (f a3)"

fun lift2 :: "('a \<Rightarrow> 'b \<Rightarrow> 'c) \<Rightarrow> 'a vec4 \<Rightarrow> 'b vec4 \<Rightarrow> 'c vec4" where
  "lift2 f (Vec4 a0 a1 a2 a3) (Vec4 b0 b1 b2 b3) = Vec4 (f a0 b0) (f a1 b1) (f a2 b2) (f a3 b3)"

text \<open>The mask operators \<^verbatim>\<open>&\<close>, \<^verbatim>\<open>|\<close>, \<^verbatim>\<open>!\<close> and the reductions \<^verbatim>\<open>none\<close>, \<^verbatim>\<open>all\<close> of \<^verbatim>\<open>sseb\<close>.\<close>

definition and_b :: "sseb \<Rightarrow> sseb \<Rightarrow> sseb" where
  "and_b a b = lift2 (\<lambda>p q. p \<and> q) a b"

definition or_b :: "sseb \<Rightarrow> sseb \<Rightarrow> sseb" where
  "or_b a b = lift2 (\<lambda>p q. p \<or> q) a b"

definition not_b :: "sseb \<Rightarrow> sseb" where
  "not_b a = lift1 (\<lambda>p. \<not> p) a"

fun none :: "sseb \<Rightarrow> bool" where
  "none (Vec4 a b c d) = (\<not> (a \<or> b \<or> c \<or> d))"

fun all :: "sseb \<Rightarrow> bool" where
  "all (Vec4 a b c d) = (a \<and> b \<and> c \<and> d)"

text \<open>The blend \<^verbatim>\<open>select(mask, t, f)\<close>: lane by lane, \<^verbatim>\<open>t\<close> where the mask is set.\<close>

fun select :: "sseb \<Rightarrow> 'a vec4 \<Rightarrow> 'a vec4 \<Rightarrow> 'a vec4" where
  "select (Vec4 m0 m1 m2 m3) (Vec4 a0 a1 a2 a3) (Vec4 b0 b1 b2 b3) =
     Vec4 (if m0 then a0 else b0) (if m1 then a1 else b1)
          (if m2 then a2 else b2) (if m3 then a3 else b3)"

section \<open>Lane arithmetic\<close>

text \<open>
  The headers that declare \<^verbatim>\<open>ssef\<close> and its operators are not part of the sources, so
  the arithmetic of one float lane is a parameter of the model: the operations the kernel
  applies to lanes (\<^verbatim>\<open>+\<close>, \<^verbatim>\<open>-\<close>, \<^verbatim>\<open>*\<close>, \<^verbatim>\<open>abs\<close>, \<^verbatim>\<open>signmsk\<close>, \<^verbatim>\<open>^\<close>, \<^verbatim>\<open>rcp\<close>,
  \<^verbatim>\<open>>=\<close>, \<^verbatim>\<open>!=\<close> and the constant zero), collected in a record. \<^verbatim>\<open>signmsk\<close> extracts
  the sign bit of a lane and is only ever consumed by \<^verbatim>\<open>^\<close>, which flips the sign of its
  left operand where the bit is set; the bit has a type of its own here. Every definition
  of the kernel takes the record as its first argument, and a theorem stated for an
  arbitrary record holds for whatever the lanes compute, rounding included.
\<close>

record ('f, 's) lane_ops =
  fadd :: "'f \<Rightarrow> 'f \<Rightarrow> 'f"
  fsub :: "'f \<Rightarrow> 'f \<Rightarrow> 'f"
  fmul :: "'f \<Rightarrow> 'f \<Rightarrow> 'f"
  fabs :: "'f \<Rightarrow> 'f"
  fsignmsk :: "'f \<Rightarrow> 's"
  fxor :: "'f \<Rightarrow> 's \<Rightarrow> 'f"
  frcp :: "'f \<Rightarrow> 'f"
  fge :: "'f \<Rightarrow> 'f \<Rightarrow> bool"
  fne :: "'f \<Rightarrow> 'f \<Rightarrow> bool"
  fzero :: "'f"

text \<open>The operators of \<^verbatim>\<open>ssef\<close>, lane by lane.\<close>

definition sub_f :: "('f, 's) lane_ops \<Rightarrow> 'f vec4 \<Rightarrow> 'f vec4 \<Rightarrow> 'f vec4" where
  "sub_f ops a b = lift2 (fsub ops) a b"

definition mul_f :: "('f, 's) lane_ops \<Rightarrow> 'f vec4 \<Rightarrow> 'f vec4 \<Rightarrow> 'f vec4" where
  "mul_f ops a b = lift2 (fmul ops) a b"

definition abs_f :: "('f, 's) lane_ops \<Rightarrow> 'f vec4 \<Rightarrow> 'f vec4" where
  "abs_f ops a = lift1 (fabs ops) a"

definition signmsk :: "('f, 's) lane_ops \<Rightarrow> 'f vec4 \<Rightarrow> 's vec4" where
  "signmsk ops a = lift1 (fsignmsk ops) a"

definition xor_f :: "('f, 's) lane_ops \<Rightarrow> 'f vec4 \<Rightarrow> 's vec4 \<Rightarrow> 'f vec4" where
  "xor_f ops a s = lift2 (fxor ops) a s"

definition rcp :: "('f, 's) lane_ops \<Rightarrow> 'f vec4 \<Rightarrow> 'f vec4" where
  "rcp ops a = lift1 (frcp ops) a"

definition ge_f :: "('f, 's) lane_ops \<Rightarrow> 'f vec4 \<Rightarrow> 'f vec4 \<Rightarrow> sseb" where
  "ge_f ops a b = lift2 (fge ops) a b"

definition ne_f :: "('f, 's) lane_ops \<Rightarrow> 'f vec4 \<Rightarrow> 'f vec4 \<Rightarrow> sseb" where
  "ne_f ops a b = lift2 (fne ops) a b"

section \<open>Three-component vectors\<close>

text \<open>
  Modelled from the spec: the vector header that declares \<^verbatim>\<open>Vec3<T>\<close> is not part of
  the sources. \<^verbatim>\<open>Vector3f\<close> is \<^verbatim>\<open>Vec3<float>\<close> and \<^verbatim>\<open>sse3f\<close> is \<^verbatim>\<open>Vec3<ssef>\<close>. The spec
  names the operations the kernel applies (a difference, \<^verbatim>\<open>cross\<close> and \<^verbatim>\<open>dot\<close>); they are
  the usual ones, written with the component type's own operators, which they take as
  arguments here: \<^verbatim>\<open>dot(a,b) = a.x*b.x + a.y*b.y + a.z*b.z\<close> and
  \<^verbatim>\<open>cross(a,b) = (a.y*b.z - a.z*b.y, a.z*b.x - a.x*b.z, a.x*b.y - a.y*b.x)\<close>.
\<close>

datatype 'a vec3 = Vec3 (vx: 'a) (vy: 'a) (vz: 'a)

definition sub3 :: "('a \<Rightarrow> 'a \<Rightarrow> 'a) \<Rightarrow> 'a vec3 \<Rightarrow> 'a vec3 \<Rightarrow> 'a vec3" where
  "sub3 sub a b = Vec3 (sub (vx a) (vx b)) (sub (vy a) (vy b)) (sub (vz a) (vz b))"

definition cross :: "('a \<Rightarrow> 'a \<Rightarrow> 'a) \<Rightarrow> ('a \<Rightarrow> 'a \<Rightarrow> 'a) \<Rightarrow> 'a vec3 \<Rightarrow> 'a vec3 \<Rightarrow> 'a vec3" where
  "cross sub mul a b =
     Vec3 (sub (mul (vy a) (vz b)) (mul (vz a) (vy b)))
          (sub (mul (vz a) (vx b)) (mul (vx a) (vz b)))
          (sub (mul (vx a) (vy b)) (mul (vy a) (vx b)))"

definition dot :: "('a \<Rightarrow> 'a \<Rightarrow> 'a) \<Rightarrow> ('a \<Rightarrow> 'a \<Rightarrow> 'a) \<Rightarrow> 'a vec3 \<Rightarrow> 'a vec3 \<Rightarrow> 'a" where
  "dot add mul a b = add (add (mul (vx a) (vx b)) (mul (vy a) (vy b))) (mul (vz a) (vz b))"

text \<open>The broadcast \<^verbatim>\<open>sse3f(v)\<close> of a \<^verbatim>\<open>Vector3f\<close>, and the lane-wise instances.\<close>

definition splat3 :: "'f vec3 \<Rightarrow> 'f vec4 vec3" where
  "splat3 a = Vec3 (splat (vx a)) (splat (vy a)) (splat (vz a))"

definition add_f :: "('f, 's) lane_ops \<Rightarrow> 'f vec4 \<Rightarrow> 'f vec4 \<Rightarrow> 'f vec4" where
  "add_f ops a b = lift2 (fadd ops) a b"

definition sub3_f :: "('f, 's) lane_ops \<Rightarrow> 'f vec4 vec3 \<Rightarrow> 'f vec4 vec3 \<Rightarrow> 'f vec4 vec3" where
  "sub3_f ops a b = sub3 (sub_f ops) a b"

definition cross_f :: "('f, 's) lane_ops \<Rightarrow> 'f vec4 vec3 \<Rightarrow> 'f vec4 vec3 \<Rightarrow> 'f vec4 vec3" where
  "cross_f ops a b = cross (sub_f ops) (mul_f ops) a b"

definition dot_f :: "('f, 's) lane_ops \<Rightarrow> 'f vec4 vec3 \<Rightarrow> 'f vec4 vec3 \<Rightarrow> 'f vec4" where
  "dot_f ops a b = dot (add_f ops) (mul_f ops) a b"

section \<open>Ray packet and triangle leaf\<close>

text \<open>
  Modelled from the spec: \<^verbatim>\<open>Ray4\<close> and \<^verbatim>\<open>Triangle4\<close> are declared in headers that are
  not part of the sources. The records hold the members the kernel reads and writes, in
  the structure-of-arrays layout of the spec's data model: one register per coordinate,
  one lane per ray of the packet and one lane per triangle slot of the leaf.
  \<^verbatim>\<open>tri.size()\<close> is the number of occupied slots, at most the width of the register; the
  loop of the kernel visits the slots \<^verbatim>\<open>0 .. size()-1\<close> in order.
\<close>

record 'f Ray4 =
  ray_org :: "'f vec4 vec3"
  ray_dir :: "'f vec4 vec3"
  ray_tnear :: "'f vec4"
  ray_tfar :: "'f vec4"
  ray_u :: "'f vec4"
  ray_v :: "'f vec4"
  ray_id0 :: ssei
  ray_id1 :: ssei
  ray_Ng :: "'f vec4 vec3"

record 'f Triangle4 =
  tri_v0 :: "'f vec4 vec3"
  tri_e1 :: "'f vec4 vec3"
  tri_e2 :: "'f vec4 vec3"
  tri_Ng :: "'f vec4 vec3"
  tri_id0 :: ssei
  tri_id1 :: ssei
  tri_size :: nat

text \<open>\<^verbatim>\<open>Vector3f(a.x[i], a.y[i], a.z[i])\<close>: slot \<^verbatim>\<open>i\<close> of a structure of arrays.\<close>

definition slot3 :: "'f vec4 vec3 \<Rightarrow> lane \<Rightarrow> 'f vec3" where
  "slot3 a i = Vec3 (lane_at (vx a) i) (lane_at (vy a) i) (lane_at (vz a) i)"

definition slots :: "'f Triangle4 \<Rightarrow> lane list" where
  "slots tri = take (tri_size tri) [L0, L1, L2, L3]"

section \<open>The kernel\<close>

subsection \<open>intersect\<close>

text \<open>
  The statistics macro \<^verbatim>\<open>STAT3\<close> and the unused parameter \<^verbatim>\<open>vertices\<close> have no part in
  what the two functions compute and are left out.

  One iteration of the loop of \<^verbatim>\<open>intersect\<close> (lines 48 to 93), on the packet as the
  earlier iterations left it. The result is the final value of the local mask \<^verbatim>\<open>valid\<close>
  together with the packet after the iteration: a \<^verbatim>\<open>continue\<close> is taken where
  \<^verbatim>\<open>none(valid)\<close> holds and leaves the packet as it is, and the blends of lines 86 to
  93 write exactly the lanes of the final mask. A lane records a hit in this iteration
  when that mask is set at the lane.
\<close>

definition intersect_slot ::
  "('f, 's) lane_ops \<Rightarrow> sseb \<Rightarrow> 'f Triangle4 \<Rightarrow> lane \<Rightarrow> 'f Ray4 \<Rightarrow> sseb \<times> 'f Ray4" where
  "intersect_slot ops valid_i tri i ray =
    (let valid = valid_i;
         p0 = slot3 (tri_v0 tri) i;
         e1 = slot3 (tri_e1 tri) i;
         e2 = slot3 (tri_e2 tri) i;
         Ng = slot3 (tri_Ng tri) i;
         C = sub3_f ops (splat3 p0) (ray_org ray);
         R = cross_f ops (ray_dir ray) C;
         det = dot_f ops (splat3 Ng) (ray_dir ray);
         absDet = abs_f ops det;
         sgnDet = signmsk ops det;
         valid = and_b valid (ne_f ops det (splat (fzero ops)))
     in if none valid then (valid, ray) else
     let U = xor_f ops (dot_f ops R (splat3 e2)) sgnDet;
         valid = and_b valid (ge_f ops U (splat (fzero ops)))
     in if none valid then (valid, ray) else
     let V = xor_f ops (dot_f ops R (splat3 e1)) sgnDet;
         valid = and_b valid (ge_f ops V (splat (fzero ops)))
     in if none valid then (valid, ray) else
     let W = sub_f ops (sub_f ops absDet U) V;
         valid = and_b valid (ge_f ops W (splat (fzero ops)))
     in if none valid then (valid, ray) else
     let T = xor_f ops (dot_f ops (splat3 Ng) C) sgnDet;
         valid = and_b valid (and_b (ge_f ops T (mul_f ops absDet (ray_tnear ray)))
                                    (ge_f ops (mul_f ops absDet (ray_tfar ray)) T))
     in if none valid then (valid, ray) else
     let rcpAbsDet = rcp ops absDet
     in (valid,
         ray\<lparr> ray_u := select valid (mul_f ops U rcpAbsDet) (ray_u ray),
              ray_v := select valid (mul_f ops V rcpAbsDet) (ray_v ray),
              ray_tfar := select valid (mul_f ops T rcpAbsDet) (ray_tfar ray),
              ray_id0 := select valid (splat (lane_at (tri_id0 tri) i)) (ray_id0 ray),
              ray_id1 := select valid (splat (lane_at (tri_id1 tri) i)) (ray_id1 ray),
              ray_Ng := Vec3 (select valid (splat (vx Ng)) (vx (ray_Ng ray)))
                             (select valid (splat (vy Ng)) (vy (ray_Ng ray)))
                             (select valid (splat (vz Ng)) (vz (ray_Ng ray))) \<rparr>))"

text \<open>
  The loop over the slots. \<^verbatim>\<open>intersect_loop\<close> returns, beside the packet, the union of
  the final masks of the iterations: the lanes for which some slot recorded a hit.
\<close>

primrec intersect_loop ::
  "('f, 's) lane_ops \<Rightarrow> sseb \<Rightarrow> 'f Triangle4 \<Rightarrow> lane list \<Rightarrow> sseb \<times> 'f Ray4 \<Rightarrow> sseb \<times> 'f Ray4" where
  "intersect_loop ops valid_i tri [] st = st"
| "intersect_loop ops valid_i tri (i # is) st =
     (let (valid, ray') = intersect_slot ops valid_i tri i (snd st)
      in intersect_loop ops valid_i tri is (or_b (fst st) valid, ray'))"

definition intersect :: "('f, 's) lane_ops \<Rightarrow> sseb \<Rightarrow> 'f Ray4 \<Rightarrow> 'f Triangle4 \<Rightarrow> 'f Ray4" where
  "intersect ops valid_i ray tri =
     snd (intersect_loop ops valid_i tri (slots tri) (splat False, ray))"

definition intersect_hits :: "('f, 's) lane_ops \<Rightarrow> sseb \<Rightarrow> 'f Ray4 \<Rightarrow> 'f Triangle4 \<Rightarrow> sseb" where
  "intersect_hits ops valid_i ray tri =
     fst (intersect_loop ops valid_i tri (slots tri) (splat False, ray))"

subsection \<open>occluded\<close>

text \<open>
  The test of one iteration of \<^verbatim>\<open>occluded\<close> (lines 105 to 139): \<open>None\<close> where a
  \<^verbatim>\<open>continue\<close> is taken, otherwise the mask \<^verbatim>\<open>valid\<close> that reaches line 142.
\<close>

definition occluded_slot ::
  "('f, 's) lane_ops \<Rightarrow> sseb \<Rightarrow> 'f Triangle4 \<Rightarrow> lane \<Rightarrow> 'f Ray4 \<Rightarrow> sseb option" where
  "occluded_slot ops valid_i tri i ray =
    (let valid = valid_i;
         p0 = slot3 (tri_v0 tri) i;
         e1 = slot3 (tri_e1 tri) i;
         e2 = slot3 (tri_e2 tri) i;
         Ng = slot3 (tri_Ng tri) i;
         C = sub3_f ops (splat3 p0) (ray_org ray);
         R = cross_f ops (ray_dir ray) C;
         det = dot_f ops (splat3 Ng) (ray_dir ray);
         absDet = abs_f ops det;
         sgnDet = signmsk ops det;
         valid = and_b valid (ne_f ops det (splat (fzero ops)))
     in if none valid then None else
     let U = xor_f ops (dot_f ops R (splat3 e2)) sgnDet;
         valid = and_b valid (ge_f ops U (splat (fzero ops)))
     in if none valid then None else
     let V = xor_f ops (dot_f ops R (splat3 e1)) sgnDet;
         valid = and_b valid (ge_f ops V (splat (fzero ops)))
     in if none valid then None else
     let W = sub_f ops (sub_f ops absDet U) V;
         valid = and_b valid (ge_f ops W (splat (fzero ops)))
     in if none valid then None else
     let T = xor_f ops (dot_f ops (splat3 Ng) C) sgnDet;
         valid = and_b valid (and_b (ge_f ops T (mul_f ops absDet (ray_tnear ray)))
                                    (ge_f ops (mul_f ops absDet (ray_tfar ray)) T))
     in if none valid then None else Some valid)"

text \<open>
  The loop of \<^verbatim>\<open>occluded\<close> with its early \<^verbatim>\<open>return\<close> (line 143). The packet is passed
  by reference; the model returns the packet the call leaves behind together with the
  mask.
\<close>

primrec occluded_loop ::
  "('f, 's) lane_ops \<Rightarrow> sseb \<Rightarrow> 'f Triangle4 \<Rightarrow> lane list \<Rightarrow> 'f Ray4 \<Rightarrow> sseb \<Rightarrow> sseb \<times> 'f Ray4" where
  "occluded_loop ops valid_i tri [] ray occlusion = (occlusion, ray)"
| "occluded_loop ops valid_i tri (i # is) ray occlusion =
     (case occluded_slot ops valid_i tri i ray of
        None \<Rightarrow> occluded_loop ops valid_i tri is ray occlusion
      | Some valid \<Rightarrow>
          (let occlusion' = or_b occlusion valid
           in if all occlusion' then (occlusion', ray)
              else occluded_loop ops valid_i tri is ray occlusion'))"

definition occluded :: "('f, 's) lane_ops \<Rightarrow> sseb \<Rightarrow> 'f Ray4 \<Rightarrow> 'f Triangle4 \<Rightarrow> sseb \<times> 'f Ray4" where
  "occluded ops valid_i ray tri =
     occluded_loop ops valid_i tri (slots tri) ray (not_b valid_i)"


subsection \<open>occluded without the early return\<close>

text \<open>
  The loop of \<^verbatim>\<open>occluded\<close> as the spec describes the alternative: every slot of the leaf
  is processed and the mask is returned after the last one. It differs from
  \<open>occluded_loop\<close> only in the missing test of line 143.
\<close>

primrec occluded_all_slots_loop ::
  "('f, 's) lane_ops \<Rightarrow> sseb \<Rightarrow> 'f Triangle4 \<Rightarrow> lane list \<Rightarrow> 'f Ray4 \<Rightarrow> sseb \<Rightarrow> sseb \<times> 'f Ray4" where
  "occluded_all_slots_loop ops valid_i tri [] ray occlusion = (occlusion, ray)"
| "occluded_all_slots_loop ops valid_i tri (i # is) ray occlusion =
     (case occluded_slot ops valid_i tri i ray of
        None \<Rightarrow> occluded_all_slots_loop ops valid_i tri is ray occlusion
      | Some valid \<Rightarrow> occluded_all_slots_loop ops valid_i tri is ray (or_b occlusion valid))"

definition occluded_all_slots ::
  "('f, 's) lane_ops \<Rightarrow> sseb \<Rightarrow> 'f Ray4 \<Rightarrow> 'f Triangle4 \<Rightarrow> sseb \<times> 'f Ray4" where
  "occluded_all_slots ops valid_i ray tri =
     occluded_all_slots_loop ops valid_i tri (slots tri) ray (not_b valid_i)"

section \<open>One lane against one slot\<close>

text \<open>
  The quantities the kernel computes for slot \<open>i\<close>, read at lane \<open>l\<close> of the packet.
  Both functions compute them with the same expressions.
\<close>

definition lane_C :: "('f, 's) lane_ops \<Rightarrow> 'f Triangle4 \<Rightarrow> lane \<Rightarrow> 'f Ray4 \<Rightarrow> lane \<Rightarrow> 'f vec3" where
  "lane_C ops tri i ray l = sub3 (fsub ops) (slot3 (tri_v0 tri) i) (slot3 (ray_org ray) l)"

definition lane_R :: "('f, 's) lane_ops \<Rightarrow> 'f Triangle4 \<Rightarrow> lane \<Rightarrow> 'f Ray4 \<Rightarrow> lane \<Rightarrow> 'f vec3" where
  "lane_R ops tri i ray l = cross (fsub ops) (fmul ops) (slot3 (ray_dir ray) l) (lane_C ops tri i ray l)"

definition lane_det :: "('f, 's) lane_ops \<Rightarrow> 'f Triangle4 \<Rightarrow> lane \<Rightarrow> 'f Ray4 \<Rightarrow> lane \<Rightarrow> 'f" where
  "lane_det ops tri i ray l = dot (fadd ops) (fmul ops) (slot3 (tri_Ng tri) i) (slot3 (ray_dir ray) l)"

definition lane_absDet :: "('f, 's) lane_ops \<Rightarrow> 'f Triangle4 \<Rightarrow> lane \<Rightarrow> 'f Ray4 \<Rightarrow> lane \<Rightarrow> 'f" where
  "lane_absDet ops tri i ray l = fabs ops (lane_det ops tri i ray l)"

definition lane_U :: "('f, 's) lane_ops \<Rightarrow> 'f Triangle4 \<Rightarrow> lane \<Rightarrow> 'f Ray4 \<Rightarrow> lane \<Rightarrow> 'f" where
  "lane_U ops tri i ray l =
     fxor ops (dot (fadd ops) (fmul ops) (lane_R ops tri i ray l) (slot3 (tri_e2 tri) i))
              (fsignmsk ops (lane_det ops tri i ray l))"

definition lane_V :: "('f, 's) lane_ops \<Rightarrow> 'f Triangle4 \<Rightarrow> lane \<Rightarrow> 'f Ray4 \<Rightarrow> lane \<Rightarrow> 'f" where
  "lane_V ops tri i ray l =
     fxor ops (dot (fadd ops) (fmul ops) (lane_R ops tri i ray l) (slot3 (tri_e1 tri) i))
              (fsignmsk ops (lane_det ops tri i ray l))"

definition lane_W :: "('f, 's) lane_ops \<Rightarrow> 'f Triangle4 \<Rightarrow> lane \<Rightarrow> 'f Ray4 \<Rightarrow> lane \<Rightarrow> 'f" where
  "lane_W ops tri i ray l =
     fsub ops (fsub ops (lane_absDet ops tri i ray l) (lane_U ops tri i ray l)) (lane_V ops tri i ray l)"

definition lane_T :: "('f, 's) lane_ops \<Rightarrow> 'f Triangle4 \<Rightarrow> lane \<Rightarrow> 'f Ray4 \<Rightarrow> lane \<Rightarrow> 'f" where
  "lane_T ops tri i ray l =
     fxor ops (dot (fadd ops) (fmul ops) (slot3 (tri_Ng tri) i) (lane_C ops tri i ray l))
              (fsignmsk ops (lane_det ops tri i ray l))"

text \<open>
  The five tests of lines 61, 66, 71, 76 and 81 at one lane: determinant, the three edges,
  and the depth interval against the packet's current \<^verbatim>\<open>tnear\<close> and \<^verbatim>\<open>tfar\<close>.
\<close>

definition lane_valid :: "('f, 's) lane_ops \<Rightarrow> 'f Triangle4 \<Rightarrow> lane \<Rightarrow> 'f Ray4 \<Rightarrow> lane \<Rightarrow> bool" where
  "lane_valid ops tri i ray l \<longleftrightarrow>
     fne ops (lane_det ops tri i ray l) (fzero ops) \<and>
     fge ops (lane_U ops tri i ray l) (fzero ops) \<and>
     fge ops (lane_V ops tri i ray l) (fzero ops) \<and>
     fge ops (lane_W ops tri i ray l) (fzero ops) \<and>
     fge ops (lane_T ops tri i ray l)
             (fmul ops (lane_absDet ops tri i ray l) (lane_at (ray_tnear ray) l)) \<and>
     fge ops (fmul ops (lane_absDet ops tri i ray l) (lane_at (ray_tfar ray) l))
             (lane_T ops tri i ray l)"

text \<open>
  The hit fields \<^verbatim>\<open>u\<close>, \<^verbatim>\<open>v\<close>, \<^verbatim>\<open>tfar\<close>, \<^verbatim>\<open>id0\<close>, \<^verbatim>\<open>id1\<close> and \<^verbatim>\<open>Ng\<close> of one lane of
  the packet, as a tuple; the distance \<^verbatim>\<open>T * rcpAbsDet\<close> that line 88 stores; and the
  tuple that lines 86 to 93 write at a lane that passed.
\<close>

definition hit_fields :: "'f Ray4 \<Rightarrow> lane \<Rightarrow> 'f \<times> 'f \<times> 'f \<times> 32 word \<times> 32 word \<times> 'f vec3" where
  "hit_fields ray l =
     (lane_at (ray_u ray) l, lane_at (ray_v ray) l, lane_at (ray_tfar ray) l,
      lane_at (ray_id0 ray) l, lane_at (ray_id1 ray) l, slot3 (ray_Ng ray) l)"

definition lane_t :: "('f, 's) lane_ops \<Rightarrow> 'f Triangle4 \<Rightarrow> lane \<Rightarrow> 'f Ray4 \<Rightarrow> lane \<Rightarrow> 'f" where
  "lane_t ops tri i ray l =
     fmul ops (lane_T ops tri i ray l) (frcp ops (lane_absDet ops tri i ray l))"

definition slot_fields ::
  "('f, 's) lane_ops \<Rightarrow> 'f Triangle4 \<Rightarrow> lane \<Rightarrow> 'f Ray4 \<Rightarrow> lane \<Rightarrow>
     'f \<times> 'f \<times> 'f \<times> 32 word \<times> 32 word \<times> 'f vec3" where
  "slot_fields ops tri i ray l =
     (fmul ops (lane_U ops tri i ray l) (frcp ops (lane_absDet ops tri i ray l)),
      fmul ops (lane_V ops tri i ray l) (frcp ops (lane_absDet ops tri i ray l)),
      lane_t ops tri i ray l,
      lane_at (tri_id0 tri) i, lane_at (tri_id1 tri) i, slot3 (tri_Ng tri) i)"

text \<open>The registers of one iteration, named as the source names them.\<close>

definition slot_C :: "('f, 's) lane_ops \<Rightarrow> 'f Triangle4 \<Rightarrow> lane \<Rightarrow> 'f Ray4 \<Rightarrow> 'f vec4 vec3" where
  "slot_C ops tri i ray = sub3_f ops (splat3 (slot3 (tri_v0 tri) i)) (ray_org ray)"

definition slot_R :: "('f, 's) lane_ops \<Rightarrow> 'f Triangle4 \<Rightarrow> lane \<Rightarrow> 'f Ray4 \<Rightarrow> 'f vec4 vec3" where
  "slot_R ops tri i ray = cross_f ops (ray_dir ray) (slot_C ops tri i ray)"

definition slot_det :: "('f, 's) lane_ops \<Rightarrow> 'f Triangle4 \<Rightarrow> lane \<Rightarrow> 'f Ray4 \<Rightarrow> 'f vec4" where
  "slot_det ops tri i ray = dot_f ops (splat3 (slot3 (tri_Ng tri) i)) (ray_dir ray)"

definition slot_U :: "('f, 's) lane_ops \<Rightarrow> 'f Triangle4 \<Rightarrow> lane \<Rightarrow> 'f Ray4 \<Rightarrow> 'f vec4" where
  "slot_U ops tri i ray =
     xor_f ops (dot_f ops (slot_R ops tri i ray) (splat3 (slot3 (tri_e2 tri) i)))
               (signmsk ops (slot_det ops tri i ray))"

definition slot_V :: "('f, 's) lane_ops \<Rightarrow> 'f Triangle4 \<Rightarrow> lane \<Rightarrow> 'f Ray4 \<Rightarrow> 'f vec4" where
  "slot_V ops tri i ray =
     xor_f ops (dot_f ops (slot_R ops tri i ray) (splat3 (slot3 (tri_e1 tri) i)))
               (signmsk ops (slot_det ops tri i ray))"

definition slot_T :: "('f, 's) lane_ops \<Rightarrow> 'f Triangle4 \<Rightarrow> lane \<Rightarrow> 'f Ray4 \<Rightarrow> 'f vec4" where
  "slot_T ops tri i ray =
     xor_f ops (dot_f ops (splat3 (slot3 (tri_Ng tri) i)) (slot_C ops tri i ray))
               (signmsk ops (slot_det ops tri i ray))"

definition slot_rcpAbsDet :: "('f, 's) lane_ops \<Rightarrow> 'f Triangle4 \<Rightarrow> lane \<Rightarrow> 'f Ray4 \<Rightarrow> 'f vec4" where
  "slot_rcpAbsDet ops tri i ray = rcp ops (abs_f ops (slot_det ops tri i ray))"

subsection \<open>The tests on a determinant of either sign\<close>

text \<open>
  The numerators \<^verbatim>\<open>dot(R,e2)\<close>, \<^verbatim>\<open>dot(R,e1)\<close> and \<^verbatim>\<open>dot(Ng,C)\<close> of lines 65, 70 and 80
  before the sign correction.
\<close>

definition num_U :: "('f, 's) lane_ops \<Rightarrow> 'f Triangle4 \<Rightarrow> lane \<Rightarrow> 'f Ray4 \<Rightarrow> lane \<Rightarrow> 'f" where
  "num_U ops tri i ray l =
     dot (fadd ops) (fmul ops) (lane_R ops tri i ray l) (slot3 (tri_e2 tri) i)"

definition num_V :: "('f, 's) lane_ops \<Rightarrow> 'f Triangle4 \<Rightarrow> lane \<Rightarrow> 'f Ray4 \<Rightarrow> lane \<Rightarrow> 'f" where
  "num_V ops tri i ray l =
     dot (fadd ops) (fmul ops) (lane_R ops tri i ray l) (slot3 (tri_e1 tri) i)"

definition num_T :: "('f, 's) lane_ops \<Rightarrow> 'f Triangle4 \<Rightarrow> lane \<Rightarrow> 'f Ray4 \<Rightarrow> lane \<Rightarrow> 'f" where
  "num_T ops tri i ray l =
     dot (fadd ops) (fmul ops) (slot3 (tri_Ng tri) i) (lane_C ops tri i ray l)"

text \<open>
  The edge and depth tests of lines 66 to 81 as a predicate on a determinant \<open>d\<close> and three
  numerators, and the normalisation of lines 85 to 88. \<open>two_sided_test\<close> applies the tests
  to the determinant and the numerators as they are where the determinant is positive, and
  to their negations where it is negative; \<open>two_sided_hit\<close> normalises the same values and
  adds the identifiers and the normal of the slot. \<open>neg\<close> is the negation of the lane
  arithmetic.
\<close>

definition edge_depth_tests ::
  "('f, 's) lane_ops \<Rightarrow> 'f \<Rightarrow> 'f \<Rightarrow> 'f \<Rightarrow> 'f \<Rightarrow> 'f \<Rightarrow> 'f \<Rightarrow> bool" where
  "edge_depth_tests ops d u v t tnear tfar \<longleftrightarrow>
     fge ops u (fzero ops) \<and> fge ops v (fzero ops) \<and>
     fge ops (fsub ops (fsub ops d u) v) (fzero ops) \<and>
     fge ops t (fmul ops d tnear) \<and> fge ops (fmul ops d tfar) t"

definition normalised :: "('f, 's) lane_ops \<Rightarrow> 'f \<Rightarrow> 'f \<Rightarrow> 'f \<Rightarrow> 'f \<Rightarrow> 'f \<times> 'f \<times> 'f" where
  "normalised ops d u v t =
     (fmul ops u (frcp ops d), fmul ops v (frcp ops d), fmul ops t (frcp ops d))"

definition two_sided_test ::
  "('f, 's) lane_ops \<Rightarrow> ('f \<Rightarrow> 'f) \<Rightarrow> 'f Triangle4 \<Rightarrow> lane \<Rightarrow> 'f Ray4 \<Rightarrow> lane \<Rightarrow> bool" where
  "two_sided_test ops neg tri i ray l \<longleftrightarrow>
     (let d = lane_det ops tri i ray l; u = num_U ops tri i ray l; v = num_V ops tri i ray l;
          t = num_T ops tri i ray l;
          tnear = lane_at (ray_tnear ray) l; tfar = lane_at (ray_tfar ray) l
      in fne ops d (fzero ops) \<and>
         (if fge ops d (fzero ops) then edge_depth_tests ops d u v t tnear tfar
          else edge_depth_tests ops (neg d) (neg u) (neg v) (neg t) tnear tfar))"

definition two_sided_hit ::
  "('f, 's) lane_ops \<Rightarrow> ('f \<Rightarrow> 'f) \<Rightarrow> 'f Triangle4 \<Rightarrow> lane \<Rightarrow> 'f Ray4 \<Rightarrow> lane \<Rightarrow>
     'f \<times> 'f \<times> 'f \<times> 32 word \<times> 32 word \<times> 'f vec3" where
  "two_sided_hit ops neg tri i ray l =
     (let d = lane_det ops tri i ray l; u = num_U ops tri i ray l; v = num_V ops tri i ray l;
          t = num_T ops tri i ray l;
          (hu, hv, ht) = (if fge ops d (fzero ops) then normalised ops d u v t
                          else normalised ops (neg d) (neg u) (neg v) (neg t))
      in (hu, hv, ht, lane_at (tri_id0 tri) i, lane_at (tri_id1 tri) i, slot3 (tri_Ng tri) i))"

section \<open>Instances of the lane arithmetic\<close>

subsection \<open>Comparing equal to zero\<close>

text \<open>
  A lane value is a zero when \<^verbatim>\<open>!=\<close> against the constant zero is false. Two laws of
  the arithmetic: a product with a zero factor is a zero, and a sum of zeros is a zero.
  Exact arithmetic satisfies both, and so does binary32 arithmetic on finite operands
  (the products and sums are \<open>+0\<close> or \<open>-0\<close>, which compare equal to zero).
\<close>

definition is_zero :: "('f, 's) lane_ops \<Rightarrow> 'f \<Rightarrow> bool" where
  "is_zero ops a \<longleftrightarrow> \<not> fne ops a (fzero ops)"

definition zero_laws :: "('f, 's) lane_ops \<Rightarrow> bool" where
  "zero_laws ops \<longleftrightarrow>
     (\<forall>a b. is_zero ops a \<longrightarrow> is_zero ops (fmul ops a b)) \<and>
     (\<forall>a b. is_zero ops a \<and> is_zero ops b \<longrightarrow> is_zero ops (fadd ops a b))"

subsection \<open>Sign of a lane value\<close>

text \<open>
  What \<^verbatim>\<open>abs\<close>, \<^verbatim>\<open>signmsk\<close> and \<^verbatim>\<open>^\<close> do with a determinant that does not compare equal to
  zero: where it is not negative, \<^verbatim>\<open>abs\<close> returns it and the exclusive or with its sign
  mask changes nothing; where it is negative, \<^verbatim>\<open>abs\<close> negates it and the exclusive or with
  its sign mask negates its other operand. Exact arithmetic and binary32 arithmetic both
  satisfy these laws, with the negation of the numbers as \<open>neg\<close>.
\<close>

definition sign_laws :: "('f, 's) lane_ops \<Rightarrow> ('f \<Rightarrow> 'f) \<Rightarrow> bool" where
  "sign_laws ops neg \<longleftrightarrow>
     (\<forall>d a. fne ops d (fzero ops) \<and> fge ops d (fzero ops) \<longrightarrow>
        fabs ops d = d \<and> fxor ops a (fsignmsk ops d) = a) \<and>
     (\<forall>d a. fne ops d (fzero ops) \<and> \<not> fge ops d (fzero ops) \<longrightarrow>
        fabs ops d = neg d \<and> fxor ops a (fsignmsk ops d) = neg a)"

subsection \<open>Exact arithmetic\<close>

text \<open>
  Modelled from the spec: the lane arithmetic of \<^verbatim>\<open>ssef\<close>, whose headers are not part of
  the sources, read without rounding. The spec writes the kernel's steps in real
  arithmetic: \<open>absDet = |det|\<close>, a sign flip by the sign bit of \<open>det\<close>, and
  \<open>rcp = 1/absDet\<close>. Lanes are rational numbers, \<^verbatim>\<open>signmsk\<close> tells whether a lane is
  negative, and \<^verbatim>\<open>^\<close> negates where it is. Rounding, infinities, NaN and the sign of
  zero are outside this instance.
\<close>

definition exact_ops :: "(rat, bool) lane_ops" where
  "exact_ops =
     \<lparr> fadd = (\<lambda>a b. a + b), fsub = (\<lambda>a b. a - b), fmul = (\<lambda>a b. a * b),
       fabs = (\<lambda>a. \<bar>a\<bar>), fsignmsk = (\<lambda>a. a < 0),
       fxor = (\<lambda>a s. if s then - a else a), frcp = (\<lambda>a. 1 / a),
       fge = (\<lambda>a b. b \<le> a), fne = (\<lambda>a b. a \<noteq> b), fzero = 0 \<rparr>"

text \<open>
  The solution of the ray-triangle system in exact arithmetic, with no sign correction:
  the numerators \<open>dot(R,e2)\<close>, \<open>dot(R,e1)\<close> and \<open>dot(Ng,C)\<close> divided by the signed
  determinant. A hit is inside the triangle and inside the depth interval; the sign of the
  determinant does not occur in the conditions.
\<close>

definition mt_u :: "rat Triangle4 \<Rightarrow> lane \<Rightarrow> rat Ray4 \<Rightarrow> lane \<Rightarrow> rat" where
  "mt_u tri i ray l =
     dot (+) (*) (lane_R exact_ops tri i ray l) (slot3 (tri_e2 tri) i) / lane_det exact_ops tri i ray l"

definition mt_v :: "rat Triangle4 \<Rightarrow> lane \<Rightarrow> rat Ray4 \<Rightarrow> lane \<Rightarrow> rat" where
  "mt_v tri i ray l =
     dot (+) (*) (lane_R exact_ops tri i ray l) (slot3 (tri_e1 tri) i) / lane_det exact_ops tri i ray l"

definition mt_t :: "rat Triangle4 \<Rightarrow> lane \<Rightarrow> rat Ray4 \<Rightarrow> lane \<Rightarrow> rat" where
  "mt_t tri i ray l =
     dot (+) (*) (slot3 (tri_Ng tri) i) (lane_C exact_ops tri i ray l) / lane_det exact_ops tri i ray l"

definition two_sided_accept :: "rat Triangle4 \<Rightarrow> lane \<Rightarrow> rat Ray4 \<Rightarrow> lane \<Rightarrow> bool" where
  "two_sided_accept tri i ray l \<longleftrightarrow>
     lane_det exact_ops tri i ray l \<noteq> 0 \<and>
     0 \<le> mt_u tri i ray l \<and> 0 \<le> mt_v tri i ray l \<and> mt_u tri i ray l + mt_v tri i ray l \<le> 1 \<and>
     lane_at (ray_tnear ray) l \<le> mt_t tri i ray l \<and> mt_t tri i ray l \<le> lane_at (ray_tfar ray) l"

subsection \<open>Binary32 arithmetic\<close>

text \<open>
  Modelled from the spec: the standard floating-point semantics of the lanes, whose
  headers are not part of the sources. A lane holds the rational number its binary32
  value denotes; sum, difference and product are the exact result rounded to 24
  significant bits, to nearest with ties to even, as the SSE instructions \<^verbatim>\<open>addps\<close>,
  \<^verbatim>\<open>subps\<close> and \<^verbatim>\<open>mulps\<close> compute them. The exponent range, infinities, NaN and the sign
  of zero are not modelled, so the instance is meant for operands and results in the
  normal range. \<^verbatim>\<open>rcp\<close> is an approximation of the reciprocal whose rounding the sources
  do not fix; it is an argument of the instance, with the reciprocal rounded to nearest
  and the reciprocal rounded toward zero as two choices.

  \<open>float_exponent x\<close> is the exponent of the binade of \<open>x\<close>: the integer \<open>e\<close> with
  \<open>2^e \<le> |x| < 2^(e+1)\<close>; \<open>quantum32 x\<close> is the distance between neighbouring binary32
  values in that binade.
\<close>

definition float_exponent :: "rat \<Rightarrow> int" where
  "float_exponent x =
     (let (p, q) = quotient_of \<bar>x\<bar>; k = bitlen p - bitlen q
      in if 2 powi k \<le> \<bar>x\<bar> then k else k - 1)"

definition quantum32 :: "rat \<Rightarrow> rat" where
  "quantum32 x = 2 powi (float_exponent x - 23)"

definition round32 :: "rat \<Rightarrow> rat" where
  "round32 x =
     (if x = 0 then 0
      else let q = quantum32 x; y = \<bar>x\<bar> / q; n = \<lfloor>y\<rfloor>; r = y - of_int n;
               m = (if r < 1/2 then n else if 1/2 < r then n + 1 else if even n then n else n + 1)
           in sgn x * of_int m * q)"

definition trunc32 :: "rat \<Rightarrow> rat" where
  "trunc32 x = (if x = 0 then 0 else sgn x * of_int \<lfloor>\<bar>x\<bar> / quantum32 x\<rfloor> * quantum32 x)"

text \<open>The binary32 values are the numbers that rounding leaves as they are.\<close>

definition is_binary32 :: "rat \<Rightarrow> bool" where
  "is_binary32 x \<longleftrightarrow> round32 x = x"

definition rcp_nearest :: "rat \<Rightarrow> rat" where
  "rcp_nearest a = round32 (1 / a)"

definition rcp_truncated :: "rat \<Rightarrow> rat" where
  "rcp_truncated a = trunc32 (1 / a)"

definition binary32_ops :: "(rat \<Rightarrow> rat) \<Rightarrow> (rat, bool) lane_ops" where
  "binary32_ops rcp32 =
     \<lparr> fadd = (\<lambda>a b. round32 (a + b)), fsub = (\<lambda>a b. round32 (a - b)),
       fmul = (\<lambda>a b. round32 (a * b)),
       fabs = (\<lambda>a. \<bar>a\<bar>), fsignmsk = (\<lambda>a. a < 0),
       fxor = (\<lambda>a s. if s then - a else a), frcp = rcp32,
       fge = (\<lambda>a b. b \<le> a), fne = (\<lambda>a b. a \<noteq> b), fzero = 0 \<rparr>"

section \<open>Example packets and leaves\<close>

text \<open>
  The triangles follow the layout of the leaf: \<open>e1 = v0 - v1\<close>, \<open>e2 = v2 - v0\<close> and
  \<open>Ng = cross(e1, e2)\<close>. \<open>tri_pair\<close> holds the triangle \<open>(0,0,z), (1,0,z), (0,1,z)\<close> at
  \<open>z = -2\<close> in slot 0 and at \<open>z = -5\<close> in slot 1; \<open>tri_pair_swapped\<close> holds the same two
  triangles in the other order; \<open>tri_tie\<close> holds the triangle at \<open>z = 0\<close> twice, under
  different identifiers; \<open>tri_degenerate\<close> holds a triangle whose first two vertices
  coincide; \<open>tri_scaled\<close> holds the triangle \<open>(0,0,-3), (7,0,-3), (0,1,-3)\<close>, whose normal
  has length 7. \<open>tri_near_far\<close> and \<open>tri_far_near\<close> hold two parallel triangles each, with
  normals of length 57 and depths one unit in the last place apart: the nearer one first
  in \<open>tri_near_far\<close> (depths \<open>2 - 3/2^22\<close> and \<open>2 - 5/2^23\<close>), the farther one first in
  \<open>tri_far_near\<close> (depths \<open>2\<close> and \<open>2 - 1/2^23\<close>); the nearer triangle has the identifier 7
  and the farther one the identifier 9. \<open>tri_twice\<close> holds the triangle
  \<open>(0,0,-2), (41,0,-2), (0,1,-2)\<close> twice, under the identifiers 7 and 9. All coordinates
  are binary32 values.
\<close>

definition tri_pair :: "rat Triangle4" where
  "tri_pair =
     \<lparr> tri_v0 = Vec3 (Vec4 0 0 0 0) (Vec4 0 0 0 0) (Vec4 (-2) (-5) 0 0),
       tri_e1 = Vec3 (Vec4 (-1) (-1) 0 0) (Vec4 0 0 0 0) (Vec4 0 0 0 0),
       tri_e2 = Vec3 (Vec4 0 0 0 0) (Vec4 1 1 0 0) (Vec4 0 0 0 0),
       tri_Ng = Vec3 (Vec4 0 0 0 0) (Vec4 0 0 0 0) (Vec4 (-1) (-1) 0 0),
       tri_id0 = Vec4 7 9 (-1) (-1),
       tri_id1 = Vec4 1 2 (-1) (-1),
       tri_size = 2 \<rparr>"

definition tri_pair_swapped :: "rat Triangle4" where
  "tri_pair_swapped =
     \<lparr> tri_v0 = Vec3 (Vec4 0 0 0 0) (Vec4 0 0 0 0) (Vec4 (-5) (-2) 0 0),
       tri_e1 = Vec3 (Vec4 (-1) (-1) 0 0) (Vec4 0 0 0 0) (Vec4 0 0 0 0),
       tri_e2 = Vec3 (Vec4 0 0 0 0) (Vec4 1 1 0 0) (Vec4 0 0 0 0),
       tri_Ng = Vec3 (Vec4 0 0 0 0) (Vec4 0 0 0 0) (Vec4 (-1) (-1) 0 0),
       tri_id0 = Vec4 9 7 (-1) (-1),
       tri_id1 = Vec4 2 1 (-1) (-1),
       tri_size = 2 \<rparr>"

definition tri_tie :: "rat Triangle4" where
  "tri_tie =
     \<lparr> tri_v0 = Vec3 (Vec4 0 0 0 0) (Vec4 0 0 0 0) (Vec4 0 0 0 0),
       tri_e1 = Vec3 (Vec4 (-1) (-1) 0 0) (Vec4 0 0 0 0) (Vec4 0 0 0 0),
       tri_e2 = Vec3 (Vec4 0 0 0 0) (Vec4 1 1 0 0) (Vec4 0 0 0 0),
       tri_Ng = Vec3 (Vec4 0 0 0 0) (Vec4 0 0 0 0) (Vec4 (-1) (-1) 0 0),
       tri_id0 = Vec4 7 9 (-1) (-1),
       tri_id1 = Vec4 1 2 (-1) (-1),
       tri_size = 2 \<rparr>"

definition tri_degenerate :: "rat Triangle4" where
  "tri_degenerate =
     \<lparr> tri_v0 = Vec3 (Vec4 0 0 0 0) (Vec4 0 0 0 0) (Vec4 (-2) 0 0 0),
       tri_e1 = Vec3 (Vec4 0 0 0 0) (Vec4 0 0 0 0) (Vec4 0 0 0 0),
       tri_e2 = Vec3 (Vec4 0 0 0 0) (Vec4 1 0 0 0) (Vec4 0 0 0 0),
       tri_Ng = Vec3 (Vec4 0 0 0 0) (Vec4 0 0 0 0) (Vec4 0 0 0 0),
       tri_id0 = Vec4 7 (-1) (-1) (-1),
       tri_id1 = Vec4 1 (-1) (-1) (-1),
       tri_size = 1 \<rparr>"

definition tri_scaled :: "rat Triangle4" where
  "tri_scaled =
     \<lparr> tri_v0 = Vec3 (Vec4 0 0 0 0) (Vec4 0 0 0 0) (Vec4 (-3) 0 0 0),
       tri_e1 = Vec3 (Vec4 (-7) 0 0 0) (Vec4 0 0 0 0) (Vec4 0 0 0 0),
       tri_e2 = Vec3 (Vec4 0 0 0 0) (Vec4 1 0 0 0) (Vec4 0 0 0 0),
       tri_Ng = Vec3 (Vec4 0 0 0 0) (Vec4 0 0 0 0) (Vec4 (-7) 0 0 0),
       tri_id0 = Vec4 7 (-1) (-1) (-1),
       tri_id1 = Vec4 1 (-1) (-1) (-1),
       tri_size = 1 \<rparr>"

definition tri_near_far :: "rat Triangle4" where
  "tri_near_far =
     \<lparr> tri_v0 = Vec3 (Vec4 0 0 0 0) (Vec4 0 0 0 0) (Vec4 (- (2 - 3 / 2 ^ 22)) (- (2 - 5 / 2 ^ 23)) 0 0),
       tri_e1 = Vec3 (Vec4 (- 57) (- 57) 0 0) (Vec4 0 0 0 0) (Vec4 0 0 0 0),
       tri_e2 = Vec3 (Vec4 0 0 0 0) (Vec4 1 1 0 0) (Vec4 0 0 0 0),
       tri_Ng = Vec3 (Vec4 0 0 0 0) (Vec4 0 0 0 0) (Vec4 (- 57) (- 57) 0 0),
       tri_id0 = Vec4 7 9 (-1) (-1),
       tri_id1 = Vec4 1 2 (-1) (-1),
       tri_size = 2 \<rparr>"

definition tri_far_near :: "rat Triangle4" where
  "tri_far_near =
     \<lparr> tri_v0 = Vec3 (Vec4 0 0 0 0) (Vec4 0 0 0 0) (Vec4 (- 2) (- (2 - 1 / 2 ^ 23)) 0 0),
       tri_e1 = Vec3 (Vec4 (- 57) (- 57) 0 0) (Vec4 0 0 0 0) (Vec4 0 0 0 0),
       tri_e2 = Vec3 (Vec4 0 0 0 0) (Vec4 1 1 0 0) (Vec4 0 0 0 0),
       tri_Ng = Vec3 (Vec4 0 0 0 0) (Vec4 0 0 0 0) (Vec4 (- 57) (- 57) 0 0),
       tri_id0 = Vec4 9 7 (-1) (-1),
       tri_id1 = Vec4 2 1 (-1) (-1),
       tri_size = 2 \<rparr>"

definition tri_twice :: "rat Triangle4" where
  "tri_twice =
     \<lparr> tri_v0 = Vec3 (Vec4 0 0 0 0) (Vec4 0 0 0 0) (Vec4 (- 2) (- 2) 0 0),
       tri_e1 = Vec3 (Vec4 (- 41) (- 41) 0 0) (Vec4 0 0 0 0) (Vec4 0 0 0 0),
       tri_e2 = Vec3 (Vec4 0 0 0 0) (Vec4 1 1 0 0) (Vec4 0 0 0 0),
       tri_Ng = Vec3 (Vec4 0 0 0 0) (Vec4 0 0 0 0) (Vec4 (- 41) (- 41) 0 0),
       tri_id0 = Vec4 7 9 (-1) (-1),
       tri_id1 = Vec4 1 2 (-1) (-1),
       tri_size = 2 \<rparr>"

text \<open>
  \<open>ray_packet\<close>: lane 0 looks down the z axis from \<open>(1/4, 1/4, 0)\<close> and meets the
  triangles of \<open>tri_pair\<close> from the front; lane 1 looks down from \<open>(5, 5, 0)\<close> and passes
  beside them; lane 2 looks up from \<open>(1/4, 1/4, -10)\<close> and meets them from the back;
  lane 3 runs along the x axis, parallel to their planes. Every lane starts with the
  interval \<open>[0, 100]\<close> and no recorded hit. \<open>ray_point\<close>: every lane looks down from
  \<open>(1/4, 1/4, 0)\<close> with \<^verbatim>\<open>tfar\<close> \<open>= 3\<close>; lanes 0 and 2 have \<^verbatim>\<open>tnear\<close> \<open>= 3\<close> as well, so
  their interval is the single point 3.
\<close>

definition ray_packet :: "rat Ray4" where
  "ray_packet =
     \<lparr> ray_org = Vec3 (Vec4 (1/4) 5 (1/4) (1/4)) (Vec4 (1/4) 5 (1/4) (1/4)) (Vec4 0 0 (-10) 0),
       ray_dir = Vec3 (Vec4 0 0 0 1) (Vec4 0 0 0 0) (Vec4 (-1) (-1) 1 0),
       ray_tnear = splat 0,
       ray_tfar = splat 100,
       ray_u = splat 0, ray_v = splat 0,
       ray_id0 = splat (-1), ray_id1 = splat (-1),
       ray_Ng = Vec3 (splat 0) (splat 0) (splat 0) \<rparr>"

definition ray_point :: "rat Ray4" where
  "ray_point =
     \<lparr> ray_org = Vec3 (splat (1/4)) (splat (1/4)) (splat 0),
       ray_dir = Vec3 (splat 0) (splat 0) (splat (-1)),
       ray_tnear = Vec4 3 0 3 0,
       ray_tfar = splat 3,
       ray_u = splat 0, ray_v = splat 0,
       ray_id0 = splat (-1), ray_id1 = splat (-1),
       ray_Ng = Vec3 (splat 0) (splat 0) (splat 0) \<rparr>"

text \<open>
  Every example leaf but \<open>tri_degenerate\<close> holds triangles of one shape:
  \<open>(0,0,-d), (a,0,-d), (0,1,-d)\<close>, for which \<open>e1 = (-a,0,0)\<close>, \<open>e2 = (0,1,0)\<close> and
  \<open>Ng = (0,0,-a)\<close>; and lane 0 of both packets looks down the z axis from \<open>(1/4, 1/4, 0)\<close>.
\<close>

definition flat_slot :: "rat Triangle4 \<Rightarrow> lane \<Rightarrow> rat \<Rightarrow> rat \<Rightarrow> bool" where
  "flat_slot tri i a d \<longleftrightarrow>
     slot3 (tri_v0 tri) i = Vec3 0 0 (- d) \<and> slot3 (tri_e1 tri) i = Vec3 (- a) 0 0 \<and>
     slot3 (tri_e2 tri) i = Vec3 0 1 0 \<and> slot3 (tri_Ng tri) i = Vec3 0 0 (- a)"

definition looks_down :: "rat Ray4 \<Rightarrow> lane \<Rightarrow> bool" where
  "looks_down ray l \<longleftrightarrow>
     slot3 (ray_org ray) l = Vec3 (1 / 4) (1 / 4) 0 \<and> slot3 (ray_dir ray) l = Vec3 0 0 (- 1)"

section \<open>Registers, lane by lane\<close>

lemma lane_at_splat: "lane_at (splat a) l = a"
  by (cases l) (simp_all add: splat_def)

lemma lane_at_lift1: "lane_at (lift1 f a) l = f (lane_at a l)"
  by (cases a; cases l) simp_all

lemma lane_at_lift2: "lane_at (lift2 f a b) l = f (lane_at a l) (lane_at b l)"
  by (cases a; cases b; cases l) simp_all

lemma lane_at_select:
  "lane_at (select m a b) l = (if lane_at m l then lane_at a l else lane_at b l)"
  by (cases m; cases a; cases b; cases l) simp_all

lemma vec4_eqI: "(\<And>l. lane_at a l = lane_at b l) \<Longrightarrow> a = b"
proof -
  assume h: "\<And>l. lane_at a l = lane_at b l"
  obtain a0 a1 a2 a3 where a: "a = Vec4 a0 a1 a2 a3" by (cases a)
  obtain b0 b1 b2 b3 where b: "b = Vec4 b0 b1 b2 b3" by (cases b)
  from h [of L0] h [of L1] h [of L2] h [of L3] show "a = b"
    by (simp add: a b)
qed

lemma none_iff: "none m \<longleftrightarrow> (\<forall>l. \<not> lane_at m l)"
proof (cases m)
  case (Vec4 a b c d)
  have "(\<forall>l. \<not> lane_at m l) \<longleftrightarrow> \<not> (a \<or> b \<or> c \<or> d)"
  proof
    assume h: "\<forall>l. \<not> lane_at m l"
    from h [rule_format, of L0] h [rule_format, of L1] h [rule_format, of L2]
      h [rule_format, of L3]
    show "\<not> (a \<or> b \<or> c \<or> d)" by (simp add: Vec4)
  next
    assume h: "\<not> (a \<or> b \<or> c \<or> d)"
    show "\<forall>l. \<not> lane_at m l"
    proof
      fix l show "\<not> lane_at m l" using h by (cases l) (simp_all add: Vec4)
    qed
  qed
  then show ?thesis by (simp add: Vec4)
qed

lemma all_iff: "all m \<longleftrightarrow> (\<forall>l. lane_at m l)"
proof (cases m)
  case (Vec4 a b c d)
  have "(\<forall>l. lane_at m l) \<longleftrightarrow> (a \<and> b \<and> c \<and> d)"
  proof
    assume h: "\<forall>l. lane_at m l"
    from h [rule_format, of L0] h [rule_format, of L1] h [rule_format, of L2]
      h [rule_format, of L3]
    show "a \<and> b \<and> c \<and> d" by (simp add: Vec4)
  next
    assume h: "a \<and> b \<and> c \<and> d"
    show "\<forall>l. lane_at m l"
    proof
      fix l show "lane_at m l" using h by (cases l) (simp_all add: Vec4)
    qed
  qed
  then show ?thesis by (simp add: Vec4)
qed

lemma lane_at_and_b: "lane_at (and_b a b) l = (lane_at a l \<and> lane_at b l)"
  by (simp add: and_b_def lane_at_lift2)

lemma lane_at_or_b: "lane_at (or_b a b) l = (lane_at a l \<or> lane_at b l)"
  by (simp add: or_b_def lane_at_lift2)

lemma lane_at_not_b: "lane_at (not_b a) l = (\<not> lane_at a l)"
  by (simp add: not_b_def lane_at_lift1)


lemma slot3_splat3: "slot3 (splat3 a) l = a"
  by (simp add: slot3_def splat3_def lane_at_splat)

lemma slot3_sub3_f: "slot3 (sub3_f ops a b) l = sub3 (fsub ops) (slot3 a l) (slot3 b l)"
  by (simp add: slot3_def sub3_f_def sub3_def sub_f_def lane_at_lift2)

lemma slot3_cross_f:
  "slot3 (cross_f ops a b) l = cross (fsub ops) (fmul ops) (slot3 a l) (slot3 b l)"
  by (simp add: slot3_def cross_f_def cross_def sub_f_def mul_f_def lane_at_lift2)

lemma lane_at_dot_f:
  "lane_at (dot_f ops a b) l = dot (fadd ops) (fmul ops) (slot3 a l) (slot3 b l)"
  by (simp add: slot3_def dot_f_def dot_def add_f_def mul_f_def lane_at_lift2)

lemmas lane_at_ops =
  lane_at_splat lane_at_and_b lane_at_select slot3_splat3 slot3_sub3_f slot3_cross_f lane_at_dot_f

lemma lane_at_ssef:
  "lane_at (sub_f ops a b) l = fsub ops (lane_at a l) (lane_at b l)"
  "lane_at (mul_f ops a b) l = fmul ops (lane_at a l) (lane_at b l)"
  "lane_at (abs_f ops a) l = fabs ops (lane_at a l)"
  "lane_at (signmsk ops a) l = fsignmsk ops (lane_at a l)"
  "lane_at (xor_f ops a s) l = fxor ops (lane_at a l) (lane_at s l)"
  "lane_at (rcp ops a) l = frcp ops (lane_at a l)"
  "lane_at (ge_f ops a b) l = fge ops (lane_at a l) (lane_at b l)"
  "lane_at (ne_f ops a b) l = fne ops (lane_at a l) (lane_at b l)"
  by (simp_all add: sub_f_def mul_f_def abs_f_def signmsk_def xor_f_def rcp_def ge_f_def
      ne_f_def lane_at_lift1 lane_at_lift2)

section \<open>One iteration of the loops\<close>

lemmas lane_defs =
  lane_valid_def lane_T_def lane_W_def lane_V_def lane_U_def lane_absDet_def lane_det_def
  lane_R_def lane_C_def

lemmas slot_defs =
  slot_rcpAbsDet_def slot_T_def slot_V_def slot_U_def slot_det_def slot_R_def slot_C_def

text \<open>
  The mask that an iteration of \<^verbatim>\<open>intersect\<close> ends with is, lane by lane, the active
  mask and the five tests; an early \<^verbatim>\<open>continue\<close> leaves a mask with no lane set.
\<close>

lemma intersect_slot_valid:
  "lane_at (fst (intersect_slot ops valid_i tri i ray)) l =
     (lane_at valid_i l \<and> lane_valid ops tri i ray l)"
  unfolding intersect_slot_def Let_def lane_defs
  by (auto simp add: none_iff lane_at_ops lane_at_ssef)

lemma occluded_slot_valid:
  "(case occluded_slot ops valid_i tri i ray of None \<Rightarrow> False | Some valid \<Rightarrow> lane_at valid l) =
     (lane_at valid_i l \<and> lane_valid ops tri i ray l)"
  unfolding occluded_slot_def Let_def lane_defs
  by (auto simp add: none_iff lane_at_ops lane_at_ssef)

text \<open>The two functions carry the same mask to their update.\<close>

lemma occluded_slot_intersect_slot:
  "occluded_slot ops valid_i tri i ray =
     (if none (fst (intersect_slot ops valid_i tri i ray)) then None
      else Some (fst (intersect_slot ops valid_i tri i ray)))"
  unfolding occluded_slot_def intersect_slot_def Let_def
  by simp

lemma intersect_slot_none:
  "none (fst (intersect_slot ops valid_i tri i ray)) \<Longrightarrow>
     snd (intersect_slot ops valid_i tri i ray) = ray"
  unfolding intersect_slot_def Let_def
  by (simp split: if_splits)

lemma intersect_slot_some:
  assumes "\<not> none (fst (intersect_slot ops valid_i tri i ray))"
  shows "snd (intersect_slot ops valid_i tri i ray) =
     ray\<lparr> ray_u := select (fst (intersect_slot ops valid_i tri i ray))
                       (mul_f ops (slot_U ops tri i ray) (slot_rcpAbsDet ops tri i ray)) (ray_u ray),
          ray_v := select (fst (intersect_slot ops valid_i tri i ray))
                       (mul_f ops (slot_V ops tri i ray) (slot_rcpAbsDet ops tri i ray)) (ray_v ray),
          ray_tfar := select (fst (intersect_slot ops valid_i tri i ray))
                       (mul_f ops (slot_T ops tri i ray) (slot_rcpAbsDet ops tri i ray)) (ray_tfar ray),
          ray_id0 := select (fst (intersect_slot ops valid_i tri i ray))
                       (splat (lane_at (tri_id0 tri) i)) (ray_id0 ray),
          ray_id1 := select (fst (intersect_slot ops valid_i tri i ray))
                       (splat (lane_at (tri_id1 tri) i)) (ray_id1 ray),
          ray_Ng := Vec3 (select (fst (intersect_slot ops valid_i tri i ray))
                            (splat (vx (slot3 (tri_Ng tri) i))) (vx (ray_Ng ray)))
                         (select (fst (intersect_slot ops valid_i tri i ray))
                            (splat (vy (slot3 (tri_Ng tri) i))) (vy (ray_Ng ray)))
                         (select (fst (intersect_slot ops valid_i tri i ray))
                            (splat (vz (slot3 (tri_Ng tri) i))) (vz (ray_Ng ray))) \<rparr>"
  using assms unfolding intersect_slot_def Let_def slot_defs
  by (simp split: if_splits)

lemma lane_at_slot:
  "lane_at (mul_f ops (slot_U ops tri i ray) (slot_rcpAbsDet ops tri i ray)) l =
     fmul ops (lane_U ops tri i ray l) (frcp ops (lane_absDet ops tri i ray l))"
  "lane_at (mul_f ops (slot_V ops tri i ray) (slot_rcpAbsDet ops tri i ray)) l =
     fmul ops (lane_V ops tri i ray l) (frcp ops (lane_absDet ops tri i ray l))"
  "lane_at (mul_f ops (slot_T ops tri i ray) (slot_rcpAbsDet ops tri i ray)) l =
     lane_t ops tri i ray l"
  unfolding slot_defs lane_defs lane_t_def
  by (simp_all add: lane_at_ops lane_at_ssef)

text \<open>
  The effect of one iteration of \<^verbatim>\<open>intersect\<close> on one lane: the hit fields are
  overwritten where the lane is active and passes the tests, and kept elsewhere; origin,
  direction and \<^verbatim>\<open>tnear\<close> are never written.
\<close>

lemma intersect_slot_fields:
  "hit_fields (snd (intersect_slot ops valid_i tri i ray)) l =
     (if lane_at valid_i l \<and> lane_valid ops tri i ray l then slot_fields ops tri i ray l
      else hit_fields ray l)"
proof (cases "none (fst (intersect_slot ops valid_i tri i ray))")
  case True
  then have "\<not> lane_at (fst (intersect_slot ops valid_i tri i ray)) l"
    by (simp add: none_iff)
  then have "\<not> (lane_at valid_i l \<and> lane_valid ops tri i ray l)"
    by (simp add: intersect_slot_valid)
  then show ?thesis
    by (auto simp add: intersect_slot_none [OF True])
next
  case False
  show ?thesis
    unfolding intersect_slot_some [OF False] hit_fields_def slot_fields_def
    by (simp add: lane_at_select lane_at_slot lane_at_splat intersect_slot_valid slot3_def)
qed

lemma intersect_slot_hit:
  "lane_at valid_i l \<Longrightarrow> lane_valid ops tri i ray l \<Longrightarrow>
     hit_fields (snd (intersect_slot ops valid_i tri i ray)) l = slot_fields ops tri i ray l"
  by (simp add: intersect_slot_fields)

lemma intersect_slot_no_hit:
  "\<not> (lane_at valid_i l \<and> lane_valid ops tri i ray l) \<Longrightarrow>
     hit_fields (snd (intersect_slot ops valid_i tri i ray)) l = hit_fields ray l"
  by (auto simp add: intersect_slot_fields)

lemma intersect_slot_inputs:
  "ray_org (snd (intersect_slot ops valid_i tri i ray)) = ray_org ray"
  "ray_dir (snd (intersect_slot ops valid_i tri i ray)) = ray_dir ray"
  "ray_tnear (snd (intersect_slot ops valid_i tri i ray)) = ray_tnear ray"
  unfolding intersect_slot_def Let_def by simp_all

lemma hit_fields_eq:
  "hit_fields r1 l = hit_fields r2 l \<longleftrightarrow>
     lane_at (ray_u r1) l = lane_at (ray_u r2) l \<and>
     lane_at (ray_v r1) l = lane_at (ray_v r2) l \<and>
     lane_at (ray_tfar r1) l = lane_at (ray_tfar r2) l \<and>
     lane_at (ray_id0 r1) l = lane_at (ray_id0 r2) l \<and>
     lane_at (ray_id1 r1) l = lane_at (ray_id1 r2) l \<and>
     slot3 (ray_Ng r1) l = slot3 (ray_Ng r2) l"
  by (simp add: hit_fields_def)

lemma intersect_slot_tfar:
  "lane_at (ray_tfar (snd (intersect_slot ops valid_i tri i ray))) l =
     (if lane_at valid_i l \<and> lane_valid ops tri i ray l then lane_t ops tri i ray l
      else lane_at (ray_tfar ray) l)"
  using intersect_slot_fields [of ops valid_i tri i ray l]
  by (auto simp add: hit_fields_def slot_fields_def split: if_splits)

text \<open>The tests of a lane read the packet at that lane only.\<close>

lemma lane_valid_cong:
  assumes "slot3 (ray_org r1) l = slot3 (ray_org r2) l"
    and "slot3 (ray_dir r1) l = slot3 (ray_dir r2) l"
    and "lane_at (ray_tnear r1) l = lane_at (ray_tnear r2) l"
    and "lane_at (ray_tfar r1) l = lane_at (ray_tfar r2) l"
  shows "lane_valid ops tri i r1 l = lane_valid ops tri i r2 l"
  unfolding lane_defs using assms by simp

lemma slot_fields_cong:
  assumes "slot3 (ray_org r1) l = slot3 (ray_org r2) l"
    and "slot3 (ray_dir r1) l = slot3 (ray_dir r2) l"
  shows "slot_fields ops tri i r1 l = slot_fields ops tri i r2 l"
  unfolding slot_fields_def lane_t_def lane_defs using assms by simp

lemma lane_geometry_cong:
  assumes "slot3 (ray_org r1) l = slot3 (ray_org r2) l"
    and "slot3 (ray_dir r1) l = slot3 (ray_dir r2) l"
  shows "lane_det ops tri i r1 l = lane_det ops tri i r2 l"
    and "lane_U ops tri i r1 l = lane_U ops tri i r2 l"
    and "lane_V ops tri i r1 l = lane_V ops tri i r2 l"
    and "lane_T ops tri i r1 l = lane_T ops tri i r2 l"
    and "lane_t ops tri i r1 l = lane_t ops tri i r2 l"
  unfolding lane_t_def lane_defs using assms by simp_all

lemma intersect_slot_miss:
  assumes "\<not> (lane_at valid_i l \<and> lane_valid ops tri i ray l)"
  shows "lane_valid ops tri j (snd (intersect_slot ops valid_i tri i ray)) l =
           lane_valid ops tri j ray l"
proof (rule lane_valid_cong)
  show "lane_at (ray_tfar (snd (intersect_slot ops valid_i tri i ray))) l = lane_at (ray_tfar ray) l"
    using assms by (auto simp add: intersect_slot_tfar)
qed (simp_all add: intersect_slot_inputs)

section \<open>The loops\<close>

text \<open>
  A lane is in the union of the masks of \<^verbatim>\<open>intersect\<close> exactly when it is active and
  some slot passes the tests on the packet as the call received it: up to the first slot
  that passes, the lane of the packet has not been written.
\<close>

lemma intersect_loop_hits:
  "lane_at (fst (intersect_loop ops valid_i tri is (m, ray))) l =
     (lane_at m l \<or> (lane_at valid_i l \<and> (\<exists>i\<in>set is. lane_valid ops tri i ray l)))"
proof (induction "is" arbitrary: m ray)
  case Nil
  show ?case by simp
next
  case (Cons i "is")
  let ?r = "intersect_slot ops valid_i tri i ray"
  have step: "intersect_loop ops valid_i tri (i # is) (m, ray) =
      intersect_loop ops valid_i tri is (or_b m (fst ?r), snd ?r)"
    by (simp add: case_prod_beta)
  show ?case
  proof (cases "lane_at valid_i l \<and> lane_valid ops tri i ray l")
    case True
    then show ?thesis
      unfolding step Cons.IH by (simp add: lane_at_or_b intersect_slot_valid)
  next
    case False
    have "\<And>j. lane_valid ops tri j (snd ?r) l = lane_valid ops tri j ray l"
      by (rule intersect_slot_miss [OF False])
    with False show ?thesis
      unfolding step Cons.IH by (auto simp add: lane_at_or_b intersect_slot_valid)
  qed
qed

lemma intersect_loop_inputs:
  "ray_org (snd (intersect_loop ops valid_i tri is st)) = ray_org (snd st)"
  "ray_dir (snd (intersect_loop ops valid_i tri is st)) = ray_dir (snd st)"
  "ray_tnear (snd (intersect_loop ops valid_i tri is st)) = ray_tnear (snd st)"
  by (induction "is" arbitrary: st) (simp_all add: case_prod_beta intersect_slot_inputs)

lemma intersect_loop_frame:
  "\<not> lane_at valid_i l \<Longrightarrow>
     hit_fields (snd (intersect_loop ops valid_i tri is st)) l = hit_fields (snd st) l"
  by (induction "is" arbitrary: st) (simp_all add: case_prod_beta intersect_slot_fields)

lemma occluded_loop_ray: "snd (occluded_loop ops valid_i tri is ray occlusion) = ray"
  by (induction "is" arbitrary: occlusion) (simp_all add: Let_def split: option.split)

text \<open>
  The mask of \<^verbatim>\<open>occluded\<close>, lane by lane. At an early return every lane is set, and
  each of them is set for one of the two reasons on the right.
\<close>

lemma occluded_loop_lane:
  "lane_at (fst (occluded_loop ops valid_i tri is ray occlusion)) l =
     (lane_at occlusion l \<or> (lane_at valid_i l \<and> (\<exists>i\<in>set is. lane_valid ops tri i ray l)))"
proof (induction "is" arbitrary: occlusion)
  case Nil
  show ?case by simp
next
  case (Cons i "is")
  note slot = occluded_slot_valid [where ops = ops and tri = tri and i = i and ray = ray
      and l = l and valid_i = valid_i]
  show ?case
  proof (cases "occluded_slot ops valid_i tri i ray")
    case None
    with slot have "\<not> (lane_at valid_i l \<and> lane_valid ops tri i ray l)" by simp
    then show ?thesis using None Cons.IH by auto
  next
    case (Some valid)
    with slot have v: "lane_at valid l = (lane_at valid_i l \<and> lane_valid ops tri i ray l)"
      by simp
    show ?thesis
    proof (cases "all (or_b occlusion valid)")
      case True
      then have "lane_at (or_b occlusion valid) l" by (simp add: all_iff)
      then have "lane_at occlusion l \<or> (lane_at valid_i l \<and> lane_valid ops tri i ray l)"
        by (simp add: lane_at_or_b v)
      with True Some show ?thesis by (auto simp add: Let_def all_iff)
    next
      case False
      with Some show ?thesis
        using Cons.IH [of "or_b occlusion valid"] by (auto simp add: Let_def lane_at_or_b v)
    qed
  qed
qed

lemma occluded_all_slots_loop_ray:
  "snd (occluded_all_slots_loop ops valid_i tri is ray occlusion) = ray"
  by (induction "is" arbitrary: occlusion) (simp_all split: option.split)

lemma occluded_all_slots_loop_lane:
  "lane_at (fst (occluded_all_slots_loop ops valid_i tri is ray occlusion)) l =
     (lane_at occlusion l \<or> (lane_at valid_i l \<and> (\<exists>i\<in>set is. lane_valid ops tri i ray l)))"
proof (induction "is" arbitrary: occlusion)
  case Nil
  show ?case by simp
next
  case (Cons i "is")
  note slot = occluded_slot_valid [where ops = ops and tri = tri and i = i and ray = ray
      and l = l and valid_i = valid_i]
  show ?case
  proof (cases "occluded_slot ops valid_i tri i ray")
    case None
    with slot have "\<not> (lane_at valid_i l \<and> lane_valid ops tri i ray l)" by simp
    then show ?thesis using None Cons.IH by auto
  next
    case (Some valid)
    with slot have v: "lane_at valid l = (lane_at valid_i l \<and> lane_valid ops tri i ray l)"
      by simp
    with Some show ?thesis
      using Cons.IH [of "or_b occlusion valid"] by (auto simp add: lane_at_or_b v)
  qed
qed
text \<open>
  After a slot has recorded a hit for a lane, a later slot is tested against the distance
  just stored: the tests of the later slot are those on the packet as received, with
  \<^verbatim>\<open>tfar\<close> replaced by that distance.
\<close>

lemma lane_valid_after_hit:
  assumes "lane_at valid_i l" and "lane_valid ops tri i ray l"
  shows "lane_valid ops tri j (snd (intersect_slot ops valid_i tri i ray)) l \<longleftrightarrow>
     fne ops (lane_det ops tri j ray l) (fzero ops) \<and>
     fge ops (lane_U ops tri j ray l) (fzero ops) \<and>
     fge ops (lane_V ops tri j ray l) (fzero ops) \<and>
     fge ops (lane_W ops tri j ray l) (fzero ops) \<and>
     fge ops (lane_T ops tri j ray l)
             (fmul ops (lane_absDet ops tri j ray l) (lane_at (ray_tnear ray) l)) \<and>
     fge ops (fmul ops (lane_absDet ops tri j ray l) (lane_t ops tri i ray l))
             (lane_T ops tri j ray l)"
proof -
  let ?r = "snd (intersect_slot ops valid_i tri i ray)"
  have g: "lane_det ops tri j ?r l = lane_det ops tri j ray l"
    "lane_U ops tri j ?r l = lane_U ops tri j ray l"
    "lane_V ops tri j ?r l = lane_V ops tri j ray l"
    "lane_T ops tri j ?r l = lane_T ops tri j ray l"
    by (rule lane_geometry_cong; simp add: intersect_slot_inputs)+
  have far: "lane_at (ray_tfar ?r) l = lane_t ops tri i ray l"
    using assms by (simp add: intersect_slot_tfar)
  show ?thesis
    unfolding lane_valid_def lane_W_def lane_absDet_def g far intersect_slot_inputs ..
qed

lemma intersect_two_slots:
  "tri_size tri = 2 \<Longrightarrow>
     intersect ops valid_i ray tri =
       snd (intersect_slot ops valid_i tri L1 (snd (intersect_slot ops valid_i tri L0 ray)))"
  by (simp add: intersect_def slots_def numeral_2_eq_2 case_prod_beta)

text \<open>The farther slot overwrites the nearer one if it passes against the nearer distance.\<close>

lemma second_slot_overwrites:
  assumes size: "tri_size tri = 2"
    and act: "lane_at valid_i l"
    and first: "lane_valid ops tri L0 ray l"
    and second: "lane_valid ops tri L1 (snd (intersect_slot ops valid_i tri L0 ray)) l"
  shows "hit_fields (intersect ops valid_i ray tri) l = slot_fields ops tri L1 ray l"
proof -
  let ?r = "snd (intersect_slot ops valid_i tri L0 ray)"
  have "hit_fields (intersect ops valid_i ray tri) l = slot_fields ops tri L1 ?r l"
    unfolding intersect_two_slots [OF size] by (rule intersect_slot_hit [OF act second])
  also have "\<dots> = slot_fields ops tri L1 ray l"
    by (rule slot_fields_cong) (simp_all add: intersect_slot_inputs)
  finally show ?thesis .
qed

text \<open>The nearer slot in second place is skipped if it fails against the farther distance.\<close>

lemma second_slot_skipped:
  assumes size: "tri_size tri = 2"
    and act: "lane_at valid_i l"
    and first: "lane_valid ops tri L0 ray l"
    and second: "\<not> lane_valid ops tri L1 (snd (intersect_slot ops valid_i tri L0 ray)) l"
  shows "hit_fields (intersect ops valid_i ray tri) l = slot_fields ops tri L0 ray l"
proof -
  let ?r = "snd (intersect_slot ops valid_i tri L0 ray)"
  from second have "\<not> (lane_at valid_i l \<and> lane_valid ops tri L1 ?r l)" by simp
  then have "hit_fields (intersect ops valid_i ray tri) l = hit_fields ?r l"
    unfolding intersect_two_slots [OF size] by (rule intersect_slot_no_hit)
  also have "\<dots> = slot_fields ops tri L0 ray l"
    by (rule intersect_slot_hit [OF act first])
  finally show ?thesis .
qed



text \<open>
  What a call of \<^verbatim>\<open>intersect\<close> leaves at a lane, for every lane arithmetic: the fields of
  one of the slots, if the lane is active and some slot passes on the packet received,
  and the fields it had otherwise.
\<close>

lemma intersect_loop_records:
  "if lane_at valid_i l \<and> (\<exists>i\<in>set is. lane_valid ops tri i ray l)
   then \<exists>k\<in>set is. fne ops (lane_det ops tri k ray l) (fzero ops) \<and>
          hit_fields (snd (intersect_loop ops valid_i tri is (m, ray))) l = slot_fields ops tri k ray l
   else hit_fields (snd (intersect_loop ops valid_i tri is (m, ray))) l = hit_fields ray l"
proof (induction "is" arbitrary: m ray)
  case Nil
  show ?case by simp
next
  case (Cons i "is")
  let ?s = "intersect_slot ops valid_i tri i ray"
  let ?r = "snd ?s"
  let ?m = "or_b m (fst ?s)"
  let ?out = "snd (intersect_loop ops valid_i tri is (?m, ?r))"
  have step: "intersect_loop ops valid_i tri (i # is) (m, ray) =
      intersect_loop ops valid_i tri is (?m, ?r)"
    by (simp add: case_prod_beta)
  have sf: "slot_fields ops tri k ?r l = slot_fields ops tri k ray l" for k
    by (rule slot_fields_cong) (simp_all add: intersect_slot_inputs)
  have dt: "lane_det ops tri k ?r l = lane_det ops tri k ray l" for k
    by (rule lane_geometry_cong) (simp_all add: intersect_slot_inputs)
  note IH = Cons.IH [where m = ?m and ray = ?r, unfolded sf dt]
  show ?case
  proof (cases "lane_at valid_i l \<and> lane_valid ops tri i ray l")
    case False
    have same: "lane_valid ops tri j ?r l = lane_valid ops tri j ray l" for j
      by (rule intersect_slot_miss [OF False])
    have keep: "hit_fields ?r l = hit_fields ray l"
      by (rule intersect_slot_no_hit [OF False])
    from IH False show ?thesis
      unfolding step same keep by (auto split: if_splits)
  next
    case True
    then have act: "lane_at valid_i l" and v: "lane_valid ops tri i ray l" by simp_all
    have rec: "hit_fields ?r l = slot_fields ops tri i ray l"
      by (rule intersect_slot_hit [OF act v])
    from v have nz: "fne ops (lane_det ops tri i ray l) (fzero ops)"
      by (simp add: lane_valid_def)
    show ?thesis
    proof (cases "\<exists>j\<in>set is. lane_valid ops tri j ?r l")
      case some: True
      with IH act obtain k where "k \<in> set is" "fne ops (lane_det ops tri k ray l) (fzero ops)"
        "hit_fields ?out l = slot_fields ops tri k ray l"
        by auto
      with True show ?thesis unfolding step by (simp del: intersect_loop.simps; blast)
    next
      case none: False
      with IH have "hit_fields ?out l = slot_fields ops tri i ray l"
        unfolding rec by simp
      with nz True show ?thesis unfolding step by (simp del: intersect_loop.simps; blast)
    qed
  qed
qed

section \<open>Properties that hold for every lane arithmetic\<close>

text \<open>
  Claim C3. A lane whose bit in the active mask is clear is left as it was by
  \<^verbatim>\<open>intersect\<close>: the fields \<^verbatim>\<open>u\<close>, \<^verbatim>\<open>v\<close>, \<^verbatim>\<open>tfar\<close>, \<^verbatim>\<open>id0\<close>, \<^verbatim>\<open>id1\<close> and \<^verbatim>\<open>Ng\<close> of that
  lane are the same before and after the call, for every packet, every leaf and every
  lane arithmetic. (Origin, direction and \<^verbatim>\<open>tnear\<close> are not written in any lane.)
\<close>

theorem intersect_inactive_lane:
  assumes "\<not> lane_at valid_i l"
  shows "lane_at (ray_u (intersect ops valid_i ray tri)) l = lane_at (ray_u ray) l \<and>
         lane_at (ray_v (intersect ops valid_i ray tri)) l = lane_at (ray_v ray) l \<and>
         lane_at (ray_tfar (intersect ops valid_i ray tri)) l = lane_at (ray_tfar ray) l \<and>
         lane_at (ray_id0 (intersect ops valid_i ray tri)) l = lane_at (ray_id0 ray) l \<and>
         lane_at (ray_id1 (intersect ops valid_i ray tri)) l = lane_at (ray_id1 ray) l \<and>
         slot3 (ray_Ng (intersect ops valid_i ray tri)) l = slot3 (ray_Ng ray) l \<and>
         ray_org (intersect ops valid_i ray tri) = ray_org ray \<and>
         ray_dir (intersect ops valid_i ray tri) = ray_dir ray \<and>
         ray_tnear (intersect ops valid_i ray tri) = ray_tnear ray"
  using intersect_loop_frame [OF assms, of ops tri "slots tri" "(splat False, ray)"]
  by (simp add: intersect_def hit_fields_eq intersect_loop_inputs)

text \<open>
  C3 at lane 0 of \<open>ray_packet\<close>, masked out: the ray meets the first triangle of
  \<open>tri_pair\<close>, and the lane still holds its initial fields after the call.
\<close>

theorem intersect_inactive_lane_witness:
  "\<not> lane_at (Vec4 False True True True) L0 \<and>
   lane_valid exact_ops tri_pair L0 ray_packet L0 \<and>
   hit_fields (intersect exact_ops (Vec4 False True True True) ray_packet tri_pair) L0 =
     (0, 0, 100, - 1, - 1, Vec3 0 0 0)"
proof -
  have h: "\<not> lane_at (Vec4 False True True True) L0" by simp
  have v: "lane_valid exact_ops tri_pair L0 ray_packet L0" by code_simp
  have e: "hit_fields ray_packet L0 = (0, 0, 100, - 1, - 1, Vec3 0 0 0)" by code_simp
  from intersect_inactive_lane [OF h, of exact_ops ray_packet tri_pair] e
  have "hit_fields (intersect exact_ops (Vec4 False True True True) ray_packet tri_pair) L0 =
     (0, 0, 100, - 1, - 1, Vec3 0 0 0)"
    by (simp add: hit_fields_def)
  with h v show ?thesis by blast
qed

text \<open>
  Claim C8. \<^verbatim>\<open>occluded\<close> does not write the packet: after the call every field of the
  packet is what it was before, for every active mask, packet, leaf and lane arithmetic.
  The call has no other result than the mask it returns.
\<close>

theorem occluded_keeps_ray: "snd (occluded ops valid_i ray tri) = ray"
  by (simp add: occluded_def occluded_loop_ray)

text \<open>
  Claim C10. The mask \<^verbatim>\<open>occluded\<close> returns is set at every lane whose bit in the
  active mask is clear, whatever the packet and the leaf: the mask starts as the
  complement of the active mask and bits are only ever added.
\<close>

theorem occluded_inactive_lane:
  "\<not> lane_at valid_i l \<Longrightarrow> lane_at (fst (occluded ops valid_i ray tri)) l"
  by (simp add: occluded_def occluded_loop_lane lane_at_not_b)

text \<open>
  C10 at lane 1 of \<open>ray_packet\<close>, masked out: the ray passes beside both triangles, and
  the lane is reported occluded.
\<close>

theorem occluded_inactive_lane_witness:
  "\<not> lane_at (Vec4 True False True True) L1 \<and>
   \<not> lane_valid exact_ops tri_pair L0 ray_packet L1 \<and>
   \<not> lane_valid exact_ops tri_pair L1 ray_packet L1 \<and>
   lane_at (fst (occluded exact_ops (Vec4 True False True True) ray_packet tri_pair)) L1"
proof -
  have h: "\<not> lane_at (Vec4 True False True True) L1" by simp
  have m: "\<not> lane_valid exact_ops tri_pair L0 ray_packet L1"
    "\<not> lane_valid exact_ops tri_pair L1 ray_packet L1" by code_simp+
  from occluded_inactive_lane [OF h] h m show ?thesis by blast
qed

text \<open>
  Claim C6. The early return of \<^verbatim>\<open>occluded\<close> does not change its result: for every
  input, the mask returned by the loop that leaves as soon as every lane is set equals the
  mask of the loop that processes every slot of the leaf.
\<close>

theorem occluded_early_return:
  "occluded ops valid_i ray tri = occluded_all_slots ops valid_i ray tri"
proof (rule prod_eqI)
  show "fst (occluded ops valid_i ray tri) = fst (occluded_all_slots ops valid_i ray tri)"
    by (rule vec4_eqI)
      (simp add: occluded_def occluded_all_slots_def occluded_loop_lane
        occluded_all_slots_loop_lane)
  show "snd (occluded ops valid_i ray tri) = snd (occluded_all_slots ops valid_i ray tri)"
    by (simp add: occluded_def occluded_all_slots_def occluded_loop_ray
        occluded_all_slots_loop_ray)
qed

text \<open>
  Claim C1, as stated, fails at a lane that is not active: \<^verbatim>\<open>occluded\<close> reports such a
  lane as occluded (C10), while \<^verbatim>\<open>intersect\<close> records nothing for it. Lane 1 of
  \<open>ray_packet\<close> passes beside both triangles of \<open>tri_pair\<close>; masked out, it is reported
  occluded, although \<^verbatim>\<open>intersect\<close> records no hit for it, neither under the same mask nor
  with every lane active.
\<close>

theorem occluded_inactive_counterexample:
  "lane_at (fst (occluded exact_ops (Vec4 True False True True) ray_packet tri_pair)) L1 \<and>
   \<not> lane_at (intersect_hits exact_ops (Vec4 True False True True) ray_packet tri_pair) L1 \<and>
   \<not> lane_at (intersect_hits exact_ops (Vec4 True True True True) ray_packet tri_pair) L1 \<and>
   hit_fields (intersect exact_ops (Vec4 True False True True) ray_packet tri_pair) L1 =
     hit_fields ray_packet L1"
  by code_simp

text \<open>
  Claim C1, amended to the active lanes. For every lane arithmetic, packet, leaf and every
  lane that is active in the mask, \<^verbatim>\<open>occluded\<close> returns true for the lane if and only if
  \<^verbatim>\<open>intersect\<close>, called with the same mask on the same packet, records a hit for the lane
  in some slot; and that is the case exactly when some slot of the leaf passes the
  determinant test, the three edge tests and the depth test
  \<open>absDet * tnear \<le> T \<le> absDet * tfar\<close> on the packet as the call received it.
\<close>

theorem occluded_iff_intersect_hit:
  assumes "lane_at valid_i l"
  shows "lane_at (fst (occluded ops valid_i ray tri)) l =
           lane_at (intersect_hits ops valid_i ray tri) l \<and>
         lane_at (intersect_hits ops valid_i ray tri) l =
           (\<exists>i\<in>set (slots tri). lane_valid ops tri i ray l)"
  using assms
  by (simp add: occluded_def intersect_hits_def occluded_loop_lane intersect_loop_hits
      lane_at_not_b lane_at_splat)

text \<open>
  C1 at the active lanes 2 and 3 of \<open>ray_packet\<close>: lane 2 meets the triangles and is
  reported occluded; lane 3 runs parallel to them and is not.
\<close>

theorem occluded_iff_intersect_hit_witness:
  "lane_at (Vec4 True False True True) L2 \<and>
   lane_at (fst (occluded exact_ops (Vec4 True False True True) ray_packet tri_pair)) L2 \<and>
   lane_at (intersect_hits exact_ops (Vec4 True False True True) ray_packet tri_pair) L2 \<and>
   lane_at (Vec4 True False True True) L3 \<and>
   \<not> lane_at (fst (occluded exact_ops (Vec4 True False True True) ray_packet tri_pair)) L3 \<and>
   \<not> lane_at (intersect_hits exact_ops (Vec4 True False True True) ray_packet tri_pair) L3"
proof -
  have h: "lane_at (Vec4 True False True True) L2" "lane_at (Vec4 True False True True) L3"
    by simp_all
  have e: "lane_at (intersect_hits exact_ops (Vec4 True False True True) ray_packet tri_pair) L2"
    "\<not> lane_at (intersect_hits exact_ops (Vec4 True False True True) ray_packet tri_pair) L3"
    by code_simp+
  from occluded_iff_intersect_hit [OF h(1), of exact_ops ray_packet tri_pair] e
  have a: "lane_at (fst (occluded exact_ops (Vec4 True False True True) ray_packet tri_pair)) L2"
    by simp
  from occluded_iff_intersect_hit [OF h(2), of exact_ops ray_packet tri_pair] e
  have b: "\<not> lane_at (fst (occluded exact_ops (Vec4 True False True True) ray_packet tri_pair)) L3"
    by simp
  from h e a b show ?thesis by blast
qed

lemma zero_det:
  assumes "zero_laws ops"
    and "is_zero ops (vx (slot3 (tri_Ng tri) i))"
    and "is_zero ops (vy (slot3 (tri_Ng tri) i))"
    and "is_zero ops (vz (slot3 (tri_Ng tri) i))"
  shows "is_zero ops (lane_det ops tri i ray l)"
proof -
  from assms(1) have mul: "is_zero ops (fmul ops a b)" if "is_zero ops a" for a b
    using that by (simp add: zero_laws_def)
  from assms(1) have add: "is_zero ops (fadd ops a b)" if "is_zero ops a" "is_zero ops b" for a b
    using that by (simp add: zero_laws_def)
  show ?thesis
    unfolding lane_det_def dot_def
    by (intro add mul assms(2-4))
qed

lemma zero_laws_exact: "zero_laws exact_ops"
  by (simp add: zero_laws_def is_zero_def exact_ops_def)

lemma zero_laws_binary32: "zero_laws (binary32_ops rcp32)"
  by (simp add: zero_laws_def is_zero_def binary32_ops_def round32_def)

text \<open>
  Claim C5. A slot whose geometric normal \<^verbatim>\<open>Ng\<close> is the zero vector never records a hit
  in \<^verbatim>\<open>intersect\<close> and never sets an occlusion bit in \<^verbatim>\<open>occluded\<close>, for every packet
  and every active mask: the determinant compares equal to zero at every lane, so the
  test of line 61 (and of line 118) clears the whole mask, the iteration takes its first
  \<^verbatim>\<open>continue\<close> and the packet is left as it was. This holds for every lane arithmetic in
  which a product with a zero factor and a sum of zeros compare equal to zero.
\<close>

theorem degenerate_slot_no_hit:
  assumes "zero_laws ops"
    and "is_zero ops (vx (slot3 (tri_Ng tri) i))"
    and "is_zero ops (vy (slot3 (tri_Ng tri) i))"
    and "is_zero ops (vz (slot3 (tri_Ng tri) i))"
  shows "none (fst (intersect_slot ops valid_i tri i ray)) \<and>
         snd (intersect_slot ops valid_i tri i ray) = ray \<and>
         occluded_slot ops valid_i tri i ray = None"
proof -
  have "\<not> lane_valid ops tri i ray l" for l
    using zero_det [OF assms, of ray l] by (simp add: lane_valid_def is_zero_def)
  then have n: "none (fst (intersect_slot ops valid_i tri i ray))"
    by (simp add: none_iff intersect_slot_valid)
  then show ?thesis
    by (simp add: intersect_slot_none occluded_slot_intersect_slot)
qed

text \<open>
  C5 at the slot of \<open>tri_degenerate\<close>, in exact arithmetic and in binary32 arithmetic.
\<close>

theorem degenerate_slot_no_hit_witness:
  "zero_laws exact_ops \<and> zero_laws (binary32_ops rcp_nearest) \<and>
   slot3 (tri_Ng tri_degenerate) L0 = Vec3 0 0 0 \<and>
   none (fst (intersect_slot exact_ops (splat True) tri_degenerate L0 ray_packet)) \<and>
   snd (intersect_slot exact_ops (splat True) tri_degenerate L0 ray_packet) = ray_packet \<and>
   occluded_slot exact_ops (splat True) tri_degenerate L0 ray_packet = None \<and>
   snd (intersect_slot (binary32_ops rcp_nearest) (splat True) tri_degenerate L0 ray_packet) = ray_packet \<and>
   occluded_slot (binary32_ops rcp_nearest) (splat True) tri_degenerate L0 ray_packet = None"
proof -
  note z = zero_laws_exact zero_laws_binary32 [of rcp_nearest]
  have n: "slot3 (tri_Ng tri_degenerate) L0 = Vec3 0 0 0" by code_simp
  have c: "is_zero exact_ops (vx (slot3 (tri_Ng tri_degenerate) L0))"
    "is_zero exact_ops (vy (slot3 (tri_Ng tri_degenerate) L0))"
    "is_zero exact_ops (vz (slot3 (tri_Ng tri_degenerate) L0))"
    by (simp_all add: n is_zero_def exact_ops_def)
  have d: "is_zero (binary32_ops rcp_nearest) (vx (slot3 (tri_Ng tri_degenerate) L0))"
    "is_zero (binary32_ops rcp_nearest) (vy (slot3 (tri_Ng tri_degenerate) L0))"
    "is_zero (binary32_ops rcp_nearest) (vz (slot3 (tri_Ng tri_degenerate) L0))"
    by (simp_all add: n is_zero_def binary32_ops_def)
  from degenerate_slot_no_hit [OF z(1) c, of "splat True" ray_packet]
    degenerate_slot_no_hit [OF z(2) d, of "splat True" ray_packet] z n
  show ?thesis by blast
qed

section \<open>Rounding\<close>

text \<open>
  Three properties of the depth interval hold in exact arithmetic and fail in binary32
  arithmetic, where the update is guarded by a test on rounded products and stores a
  rounded quotient. This section evaluates the kernel in binary32 arithmetic on inputs
  where they fail; the next section proves them in exact arithmetic.
\<close>

text \<open>
  The rounding of \<open>round32\<close> and \<open>trunc32\<close> at a few values: the binary32 neighbours of
  \<open>1/7\<close> are \<open>9586980 / 2^26\<close> and \<open>9586981 / 2^26\<close>, the binary32 value of \<open>1/10\<close> is
  \<open>13421773 / 2^27\<close>, and \<open>2^24 + 1\<close> lies half way between two binary32 values and is
  rounded to the even one.
\<close>

lemma round32_examples:
  "round32 (1 / 7) = 9586981 / 2 ^ 26"
  "trunc32 (1 / 7) = 9586980 / 2 ^ 26"
  "round32 (1 / 10) = 13421773 / 2 ^ 27"
  "round32 16777217 = 16777216"
  "round32 16777219 = 16777220"
  "round32 (- 3) = - 3"
  by code_simp+

text \<open>
  The exponent that \<open>float_exponent\<close> computes from the bit lengths of numerator and
  denominator is the exponent of the binade, and it is the only such integer.
\<close>

lemma int_power_bounds:
  fixes p :: int
  assumes "0 < p"
  shows "(2::rat) powi (bitlen p - 1) \<le> of_int p" and "of_int p < (2::rat) powi bitlen p"
proof -
  from assms have b1: "1 \<le> bitlen p" by (auto simp: bitlen_alt_def)
  from bitlen_bounds [OF assms] have lo: "2 ^ nat (bitlen p - 1) \<le> p" and hi: "p < 2 ^ nat (bitlen p)"
    by simp_all
  from lo have "(of_int (2 ^ nat (bitlen p - 1)) :: rat) \<le> of_int p"
    by (simp only: of_int_le_iff)
  with b1 show "(2::rat) powi (bitlen p - 1) \<le> of_int p"
    by (simp add: power_int_def)
  from hi have "(of_int p :: rat) < of_int (2 ^ nat (bitlen p))"
    by (simp only: of_int_less_iff)
  with b1 show "of_int p < (2::rat) powi bitlen p"
    by (simp add: power_int_def)
qed

lemma float_exponent_bounds:
  assumes "x \<noteq> 0"
  shows "2 powi float_exponent x \<le> \<bar>x\<bar>" and "\<bar>x\<bar> < 2 powi (float_exponent x + 1)"
proof -
  obtain p q where pq: "quotient_of \<bar>x\<bar> = (p, q)" by (cases "quotient_of \<bar>x\<bar>")
  then have q: "0 < q" by (rule quotient_of_denom_pos)
  from pq have x: "\<bar>x\<bar> = of_int p / of_int q" by (rule quotient_of_div)
  from assms have "0 < \<bar>x\<bar>" by simp
  with x q have p: "0 < p" by (simp add: zero_less_divide_iff)
  let ?k = "bitlen p - bitlen q"
  note P = int_power_bounds [OF p] and Q = int_power_bounds [OF q]
  have qpos: "(0::rat) < of_int q" using q by simp
  have "of_int p < (2::rat) powi bitlen p" by (rule P(2))
  also have "\<dots> = 2 powi (?k + 1) * 2 powi (bitlen q - 1)"
    by (simp add: power_int_add [symmetric])
  also have "\<dots> \<le> 2 powi (?k + 1) * of_int q"
    using Q(1) by (simp add: mult_left_mono)
  finally have hi: "\<bar>x\<bar> < 2 powi (?k + 1)"
    unfolding x using qpos by (simp add: pos_divide_less_eq)
  have "2 powi (?k - 1) * of_int q < 2 powi (?k - 1) * (2::rat) powi bitlen q"
    using Q(2) by (simp add: mult_strict_left_mono)
  also have "\<dots> = 2 powi (bitlen p - 1)"
    by (simp add: power_int_add [symmetric])
  also have "\<dots> \<le> of_int p" by (rule P(1))
  finally have lo: "2 powi (?k - 1) < \<bar>x\<bar>"
    unfolding x using qpos by (simp add: pos_less_divide_eq)
  have two: "(2::rat) powi (?k - 1 + 1) = 2 powi ?k" by simp
  show "2 powi float_exponent x \<le> \<bar>x\<bar>"
    using lo by (auto simp add: float_exponent_def pq Let_def)
  show "\<bar>x\<bar> < 2 powi (float_exponent x + 1)"
    using hi by (auto simp add: float_exponent_def pq Let_def not_le)
qed


lemma float_exponent_unique:
  assumes "2 powi e \<le> \<bar>x\<bar>" and "\<bar>x\<bar> < 2 powi (e + 1)"
  shows "float_exponent x = e"
proof -
  have pos: "0 < (2::rat) powi e" by (rule zero_less_power_int) simp
  have nz: "x \<noteq> 0"
  proof
    assume "x = 0"
    with assms(1) have "(2::rat) powi e \<le> 0" by simp
    with pos show False by linarith
  qed
  note B = float_exponent_bounds [OF nz]
  have "\<not> e + 1 \<le> float_exponent x"
  proof
    assume "e + 1 \<le> float_exponent x"
    then have "(2::rat) powi (e + 1) \<le> 2 powi float_exponent x"
      by (rule power_int_increasing) simp
    with B(1) assms(2) show False by simp
  qed
  moreover have "\<not> float_exponent x + 1 \<le> e"
  proof
    assume "float_exponent x + 1 \<le> e"
    then have "(2::rat) powi (float_exponent x + 1) \<le> 2 powi e"
      by (rule power_int_increasing) simp
    with B(2) assms(1) show False by simp
  qed
  ultimately show ?thesis by simp
qed

text \<open>
  Rounding moves a number by at most half the distance between neighbouring binary32
  values, and onto a multiple of that distance.
\<close>

lemma round32_error:
  assumes "x \<noteq> 0"
  shows "\<bar>round32 x - x\<bar> \<le> quantum32 x / 2"
proof -
  let ?q = "quantum32 x"
  let ?y = "\<bar>x\<bar> / ?q"
  let ?n = "\<lfloor>?y\<rfloor>"
  define m where "m = (if ?y - of_int ?n < 1/2 then ?n else if 1/2 < ?y - of_int ?n then ?n + 1
     else if even ?n then ?n else ?n + 1)"
  have qpos: "0 < ?q" by (simp add: quantum32_def)
  have r: "round32 x = sgn x * of_int m * ?q"
    using assms by (simp add: round32_def Let_def m_def)
  have fl: "of_int ?n \<le> ?y" "?y < of_int ?n + 1" by linarith+
  have near: "\<bar>of_int m - ?y\<bar> \<le> 1 / 2"
    unfolding m_def using fl by (auto simp add: abs_le_iff)
  have x: "x = sgn x * ?y * ?q"
    using qpos by (simp add: sgn_mult_abs)
  have "round32 x - x = sgn x * ?q * (of_int m - ?y)"
    unfolding r by (subst (2) x) (simp add: algebra_simps)
  then have "\<bar>round32 x - x\<bar> = ?q * \<bar>of_int m - ?y\<bar>"
    using assms qpos by (simp add: abs_mult abs_sgn_eq)
  also have "\<dots> \<le> ?q * (1 / 2)"
    using near qpos by (simp only: mult_left_mono less_imp_le)
  finally show ?thesis by simp
qed


text \<open>
  Rounding commutes with negation, maps a positive number into the closure of its binade,
  is monotone, and leaves its own results as they are: the results of \<open>round32\<close> are
  binary32 values.
\<close>

lemma float_exponent_minus: "float_exponent (- x) = float_exponent x"
  by (simp add: float_exponent_def)

lemma round32_minus: "round32 (- x) = - round32 x"
  by (simp add: round32_def quantum32_def float_exponent_minus Let_def)

lemma quantum32_pos: "0 < quantum32 x"
  by (simp add: quantum32_def)

lemma mantissa_range:
  assumes "0 < x"
  shows "2 ^ 23 \<le> x / quantum32 x" and "x / quantum32 x < 2 ^ 24"
proof -
  from assms have nz: "x \<noteq> 0" by simp
  note B = float_exponent_bounds [OF nz]
  let ?e = "float_exponent x"
  have q: "quantum32 x = 2 powi ?e / 2 ^ 23"
    by (simp add: quantum32_def power_int_diff)
  have p: "0 < (2::rat) powi ?e" by (rule zero_less_power_int) simp
  have up: "(2::rat) powi (?e + 1) = 2 * 2 powi ?e"
    by (simp add: power_int_add)
  from B(1) assms p show "2 ^ 23 \<le> x / quantum32 x"
    unfolding q by (simp add: field_simps)
  from B(2) assms p show "x / quantum32 x < 2 ^ 24"
    unfolding q up by (simp add: field_simps)
qed

lemma round32_pos:
  assumes "0 < x"
  shows "(round32 x = of_int \<lfloor>x / quantum32 x\<rfloor> * quantum32 x \<and>
            x / quantum32 x - of_int \<lfloor>x / quantum32 x\<rfloor> \<le> 1 / 2) \<or>
         (round32 x = (of_int \<lfloor>x / quantum32 x\<rfloor> + 1) * quantum32 x \<and>
            1 / 2 \<le> x / quantum32 x - of_int \<lfloor>x / quantum32 x\<rfloor>)"
  using assms by (simp add: round32_def Let_def) 

lemma round32_range:
  assumes "0 < x"
  shows "2 powi float_exponent x \<le> round32 x" and "round32 x \<le> 2 powi (float_exponent x + 1)"
proof -
  define q where "q = quantum32 x"
  define n where "n = \<lfloor>x / q\<rfloor>"
  note M = mantissa_range [OF assms, folded q_def]
  have qpos: "0 < q" unfolding q_def by (rule quantum32_pos)
  have lo: "(2::rat) powi float_exponent x = 2 ^ 23 * q"
    by (simp add: q_def quantum32_def power_int_diff)
  have hi: "(2::rat) powi (float_exponent x + 1) = 2 ^ 24 * q"
    by (simp add: q_def quantum32_def power_int_diff power_int_add)
  from M(1) have "(2 ^ 23 :: int) \<le> n" unfolding n_def by (simp add: le_floor_iff)
  then have "(of_int (2 ^ 23) :: rat) \<le> of_int n" by (simp only: of_int_le_iff)
  then have n1: "(2 ^ 23 :: rat) \<le> of_int n" by simp
  from M(2) have "n < (2 ^ 24 :: int)" unfolding n_def by (simp add: floor_less_iff)
  then have "n + 1 \<le> (2 ^ 24 :: int)" by simp
  then have "(of_int (n + 1) :: rat) \<le> of_int (2 ^ 24)" by (simp only: of_int_le_iff)
  then have n2: "of_int n + 1 \<le> (2 ^ 24 :: rat)" by simp
  from n1 qpos have a: "2 ^ 23 * q \<le> of_int n * q"
    by (simp only: mult_right_mono less_imp_le)
  from n2 qpos have b: "(of_int n + 1) * q \<le> 2 ^ 24 * q"
    by (simp only: mult_right_mono less_imp_le)
  have step: "of_int n * q \<le> (of_int n + 1) * q"
    using qpos by (simp add: algebra_simps)
  from round32_pos [OF assms]
  have X: "round32 x = of_int n * q \<or> round32 x = (of_int n + 1) * q"
    unfolding n_def q_def by blast
  from X a step show "2 powi float_exponent x \<le> round32 x"
    unfolding lo by (elim disjE) simp_all
  from X b step show "round32 x \<le> 2 powi (float_exponent x + 1)"
    unfolding hi by (elim disjE) simp_all
qed

lemma float_exponent_mono:
  assumes "0 < x" and "x \<le> y"
  shows "float_exponent x \<le> float_exponent y"
proof (rule ccontr)
  assume "\<not> float_exponent x \<le> float_exponent y"
  then have "float_exponent y + 1 \<le> float_exponent x" by simp
  then have "(2::rat) powi (float_exponent y + 1) \<le> 2 powi float_exponent x"
    by (rule power_int_increasing) simp
  moreover from assms have "x \<noteq> 0" "y \<noteq> 0" by simp_all
  then have "2 powi float_exponent x \<le> \<bar>x\<bar>" "\<bar>y\<bar> < 2 powi (float_exponent y + 1)"
    by (simp_all add: float_exponent_bounds)
  ultimately show False using assms by simp
qed

lemma round32_mono_pos:
  assumes "0 < x" and "x \<le> y"
  shows "round32 x \<le> round32 y"
proof (cases "float_exponent x = float_exponent y")
  case True
  then have q: "quantum32 y = quantum32 x" by (simp add: quantum32_def)
  define q where "q = quantum32 x"
  define a where "a = x / q"
  define b where "b = y / q"
  have qpos: "0 < q" unfolding q_def by (rule quantum32_pos)
  from assms have ypos: "0 < y" by simp
  from assms(2) qpos have ab: "a \<le> b" unfolding a_def b_def by (simp add: divide_right_mono)
  then have fl: "\<lfloor>a\<rfloor> \<le> \<lfloor>b\<rfloor>" by (rule floor_mono)
  from round32_pos [OF assms(1)]
  have X: "(round32 x = of_int \<lfloor>a\<rfloor> * q \<and> a - of_int \<lfloor>a\<rfloor> \<le> 1 / 2) \<or>
           (round32 x = (of_int \<lfloor>a\<rfloor> + 1) * q \<and> 1 / 2 \<le> a - of_int \<lfloor>a\<rfloor>)"
    unfolding a_def q_def .
  from round32_pos [OF ypos]
  have Y: "(round32 y = of_int \<lfloor>b\<rfloor> * q \<and> b - of_int \<lfloor>b\<rfloor> \<le> 1 / 2) \<or>
           (round32 y = (of_int \<lfloor>b\<rfloor> + 1) * q \<and> 1 / 2 \<le> b - of_int \<lfloor>b\<rfloor>)"
    unfolding b_def q_def q .
  have step: "of_int \<lfloor>a\<rfloor> * q \<le> (of_int \<lfloor>a\<rfloor> + 1) * q"
    using qpos by (simp add: algebra_simps)
  show ?thesis
  proof (cases "\<lfloor>a\<rfloor> = \<lfloor>b\<rfloor>")
    case same: True
    show ?thesis
    proof (cases "a = b")
      case True
      with qpos have "x = y" unfolding a_def b_def by simp
      then show ?thesis by simp
    next
      case False
      with ab have lt: "a < b" by simp
      from X Y show ?thesis
      proof (elim disjE conjE)
        assume "round32 x = (of_int \<lfloor>a\<rfloor> + 1) * q" "1 / 2 \<le> a - of_int \<lfloor>a\<rfloor>"
          "round32 y = of_int \<lfloor>b\<rfloor> * q" "b - of_int \<lfloor>b\<rfloor> \<le> 1 / 2"
        with lt same show ?thesis by simp
      qed (use same step in simp_all)
    qed
  next
    case False
    with fl have "\<lfloor>a\<rfloor> + 1 \<le> \<lfloor>b\<rfloor>" by simp
    then have "(of_int (\<lfloor>a\<rfloor> + 1) :: rat) \<le> of_int \<lfloor>b\<rfloor>"
      by (simp only: of_int_le_iff)
    then have "(of_int \<lfloor>a\<rfloor> :: rat) + 1 \<le> of_int \<lfloor>b\<rfloor>" by simp
    then have le: "(of_int \<lfloor>a\<rfloor> + 1) * q \<le> of_int \<lfloor>b\<rfloor> * q"
      using qpos by (simp only: mult_right_mono less_imp_le)
    have stepb: "of_int \<lfloor>b\<rfloor> * q \<le> (of_int \<lfloor>b\<rfloor> + 1) * q"
      using qpos by (simp add: algebra_simps)
    have x: "round32 x \<le> (of_int \<lfloor>a\<rfloor> + 1) * q"
      using X step by auto
    have y: "of_int \<lfloor>b\<rfloor> * q \<le> round32 y"
      using Y stepb by auto
    from x le y show ?thesis by simp
  qed
next
  case False
  with float_exponent_mono [OF assms] have "float_exponent x + 1 \<le> float_exponent y" by simp
  then have "(2::rat) powi (float_exponent x + 1) \<le> 2 powi float_exponent y"
    by (rule power_int_increasing) simp
  moreover from assms have ypos: "0 < y" by simp
  note round32_range(2) [OF assms(1)] round32_range(1) [OF ypos]
  ultimately show ?thesis by simp
qed

lemma round32_zero: "round32 0 = 0"
  by (simp add: round32_def)

lemma round32_pos_pos:
  assumes "0 < x"
  shows "0 < round32 x"
proof -
  have "0 < (2::rat) powi float_exponent x" by (rule zero_less_power_int) simp
  with round32_range(1) [OF assms] show ?thesis by linarith
qed

lemma round32_mono:
  assumes "x \<le> y"
  shows "round32 x \<le> round32 y"
proof -
  consider "0 < x" | "x \<le> 0" "0 < y" | "y < 0" | "x \<le> 0" "y = 0"
    using assms by linarith
  then show ?thesis
  proof cases
    case 1
    then show ?thesis using assms by (rule round32_mono_pos)
  next
    case 2
    have "round32 x \<le> 0"
    proof (cases "x = 0")
      case True
      then show ?thesis by (simp add: round32_zero)
    next
      case False
      with 2 have "0 < - x" by simp
      then have "0 < round32 (- x)" by (rule round32_pos_pos)
      then show ?thesis by (simp add: round32_minus)
    qed
    moreover from 2 have "0 < round32 y" by (simp add: round32_pos_pos)
    ultimately show ?thesis by simp
  next
    case 3
    with assms have "0 < - y" "- y \<le> - x" by simp_all
    then have "round32 (- y) \<le> round32 (- x)" by (rule round32_mono_pos)
    then show ?thesis by (simp add: round32_minus)
  next
    case 4
    have "round32 x \<le> 0"
    proof (cases "x = 0")
      case True
      then show ?thesis by (simp add: round32_zero)
    next
      case False
      with 4 have "0 < - x" by simp
      then have "0 < round32 (- x)" by (rule round32_pos_pos)
      then show ?thesis by (simp add: round32_minus)
    qed
    with 4 show ?thesis by (simp add: round32_zero)
  qed
qed


lemma quantum32_power:
  assumes "float_exponent x = e"
  shows "quantum32 x * 2 ^ 23 = 2 powi e"
  using assms by (simp add: quantum32_def power_int_diff)

lemma round32_exact:
  assumes "0 < y" and "y / quantum32 y = of_int m"
  shows "round32 y = y"
proof -
  have q: "0 < quantum32 y" by (rule quantum32_pos)
  with assms(2) have y: "y = of_int m * quantum32 y" by (simp add: field_simps)
  from round32_pos [OF assms(1)] have "round32 y = of_int m * quantum32 y"
    unfolding assms(2) by simp
  with y show ?thesis by simp
qed

lemma round32_int_multiple:
  fixes m :: int
  assumes x: "0 < x" and m: "2 ^ 23 \<le> m" "m \<le> 2 ^ 24"
  shows "round32 (of_int m * quantum32 x) = of_int m * quantum32 x"
proof -
  define e where "e = float_exponent x"
  define q where "q = quantum32 x"
  define y where "y = of_int m * q"
  have qpos: "0 < q" unfolding q_def by (rule quantum32_pos)
  have q23: "q * 2 ^ 23 = 2 powi e" unfolding q_def e_def by (rule quantum32_power) simp
  from m(1) have "(of_int (2 ^ 23) :: rat) \<le> of_int m" by (simp only: of_int_le_iff)
  then have m1: "(2 ^ 23 :: rat) \<le> of_int m" by simp
  from m(2) have "(of_int m :: rat) \<le> of_int (2 ^ 24)" by (simp only: of_int_le_iff)
  then have m2: "(of_int m :: rat) \<le> 2 ^ 24" by simp
  from m1 qpos have ypos: "0 < y" unfolding y_def by (simp add: zero_less_mult_iff)
  have two: "(2::rat) powi (e + 1) = 2 * 2 powi e" by (simp add: power_int_add)
  show ?thesis
  proof (cases "m = 2 ^ 24")
    case True
    then have ym: "y = 2 ^ 24 * q" unfolding y_def by simp
    then have y: "y = 2 powi (e + 1)"
      unfolding two q23 [symmetric] by simp
    have "float_exponent y = e + 1"
      by (rule float_exponent_unique) (simp_all add: y power_int_add)
    then have qy: "quantum32 y = 2 * q"
      unfolding quantum32_def q_def e_def by (simp add: power_int_diff power_int_add)
    have "y / (2 * q) = of_int (2 ^ 23)"
      unfolding ym using qpos by simp
    then have "y / quantum32 y = of_int (2 ^ 23)"
      by (simp only: qy)
    with ypos have "round32 y = y" by (rule round32_exact)
    then show ?thesis unfolding y_def q_def .
  next
    case False
    with m(2) have "m + 1 \<le> 2 ^ 24" by simp
    then have "(of_int (m + 1) :: rat) \<le> of_int (2 ^ 24)" by (simp only: of_int_le_iff)
    then have m3: "(of_int m :: rat) + 1 \<le> 2 ^ 24" by simp
    have lo: "2 powi e \<le> y"
      unfolding y_def q23 [symmetric] using m1 qpos by (simp add: mult.commute mult_right_mono)
    have "y < 2 ^ 24 * q"
      unfolding y_def using m3 qpos by (simp add: mult_strict_right_mono)
    then have hi: "y < 2 powi (e + 1)"
      unfolding two q23 [symmetric] by simp
    have "float_exponent y = e"
      by (rule float_exponent_unique) (use lo hi ypos in simp_all)
    then have qy: "quantum32 y = q"
      unfolding quantum32_def q_def e_def by simp
    have "y / q = of_int m"
      unfolding y_def using qpos by simp
    then have "y / quantum32 y = of_int m"
      by (simp only: qy)
    with ypos have "round32 y = y" by (rule round32_exact)
    then show ?thesis unfolding y_def q_def .
  qed
qed

lemma round32_idem: "round32 (round32 x) = round32 x"
proof -
  have pos: "round32 (round32 x) = round32 x" if x: "0 < x" for x
  proof -
    define q where "q = quantum32 x"
    define n where "n = \<lfloor>x / q\<rfloor>"
    note M = mantissa_range [OF x, folded q_def]
    from M(1) have n1: "(2 ^ 23 :: int) \<le> n" unfolding n_def by (simp add: le_floor_iff)
    from M(2) have "n < (2 ^ 24 :: int)" unfolding n_def by (simp add: floor_less_iff)
    then have n2: "n + 1 \<le> (2 ^ 24 :: int)" "n \<le> 2 ^ 24" by simp_all
    from n1 have n3: "2 ^ 23 \<le> n + 1" by simp
    from round32_pos [OF x]
    have "round32 x = of_int n * q \<or> round32 x = of_int (n + 1) * q"
      unfolding n_def q_def by auto
    then show ?thesis
    proof
      assume r: "round32 x = of_int n * q"
      show ?thesis unfolding r q_def by (rule round32_int_multiple [OF x n1 n2(2)])
    next
      assume r: "round32 x = of_int (n + 1) * q"
      show ?thesis unfolding r q_def by (rule round32_int_multiple [OF x n3 n2(1)])
    qed
  qed
  consider "0 < x" | "x = 0" | "0 < - x" by linarith
  then show ?thesis
  proof cases
    case 1
    then show ?thesis by (rule pos)
  next
    case 2
    then show ?thesis by (simp add: round32_zero)
  next
    case 3
    from pos [OF 3] show ?thesis by (simp add: round32_minus)
  qed
qed

lemma is_binary32_round32: "is_binary32 (round32 x)"
  by (simp add: is_binary32_def round32_idem)

text \<open>
  Which products \<open>21 * r\<close> are rounded to 3: only those with \<open>r\<close> strictly between
  \<open>9586980 / 2^26\<close> and \<open>9586981 / 2^26\<close>, the two binary32 values that enclose \<open>1/7\<close>.
  No binary32 value lies between the two, so no binary32 value \<open>r\<close> gives
  \<open>round32 (21 * r) = 3\<close>.
\<close>

lemma round32_three:
  assumes "round32 y = 3"
  shows "\<bar>y - 3\<bar> \<le> 1 / 2 ^ 23"
proof -
  from assms have nz: "y \<noteq> 0" by (auto simp add: round32_def)
  let ?e = "float_exponent y"
  note B = float_exponent_bounds [OF nz]
  have q: "quantum32 y / 2 = 2 powi ?e / 2 ^ 24"
    by (simp add: quantum32_def power_int_diff)
  from round32_error [OF nz] assms have err: "\<bar>3 - y\<bar> \<le> 2 powi ?e / 2 ^ 24"
    by (simp add: q)
  then have up: "y - 3 \<le> 2 powi ?e / 2 ^ 24" and dn: "3 - y \<le> 2 powi ?e / 2 ^ 24"
    by (simp_all only: abs_le_iff) simp_all
  have pos: "0 < (2::rat) powi ?e" by (rule zero_less_power_int) simp
  have ypos: "0 < y"
  proof (rule ccontr)
    assume "\<not> 0 < y"
    with B(1) have "2 powi ?e \<le> - y" by simp
    with dn pos show False by (simp; linarith)
  qed
  with B have lo: "2 powi ?e \<le> y" and hi: "y < 2 powi (?e + 1)" by simp_all
  have "\<not> 2 \<le> ?e"
  proof
    assume "2 \<le> ?e"
    then have "(2::rat) powi 2 \<le> 2 powi ?e"
      by (rule power_int_increasing) simp
    then have "4 \<le> (2::rat) powi ?e" by simp
    with lo up show False by (simp; linarith)
  qed
  moreover have "\<not> ?e \<le> 0"
  proof
    assume le: "?e \<le> 0"
    then have "?e + 1 \<le> 1" by simp
    then have "(2::rat) powi (?e + 1) \<le> 2 powi 1"
      by (rule power_int_increasing) simp
    then have "(2::rat) powi (?e + 1) \<le> 2" by simp
    moreover from le have "(2::rat) powi ?e \<le> 2 powi 0"
      by (rule power_int_increasing) simp
    then have "(2::rat) powi ?e \<le> 1" by simp
    ultimately show False
      using hi dn by (simp; linarith)
  qed
  ultimately have "?e = 1" by simp
  with err show ?thesis by (simp add: abs_minus_commute)
qed

lemma round32_scaled:
  assumes "round32 (21 * r) = 3"
  shows "9586980 / 2 ^ 26 < r" and "r < 9586981 / 2 ^ 26"
proof -
  from round32_three [OF assms]
  have "21 * r - 3 \<le> 1 / 2 ^ 23" and "3 - 21 * r \<le> 1 / 2 ^ 23"
    by (simp_all only: abs_le_iff) simp_all
  then show "9586980 / 2 ^ 26 < r" and "r < 9586981 / 2 ^ 26"
    by simp_all
qed

lemma round32_grid: "\<exists>m::int. round32 x = of_int m * quantum32 x"
proof -
  have g: "\<exists>m::int. sgn x * of_int k * q = of_int m * q" for k :: int and q :: rat
  proof -
    consider "sgn x = 1" | "sgn x = 0" | "sgn x = - 1"
      by (cases "x = 0"; cases "0 < x") (simp_all add: sgn_if)
    then show ?thesis
    proof cases
      case 1
      then have "sgn x * of_int k * q = of_int k * q" by simp
      then show ?thesis ..
    next
      case 2
      then have "sgn x * of_int k * q = of_int 0 * q" by simp
      then show ?thesis ..
    next
      case 3
      then have "sgn x * of_int k * q = of_int (- k) * q" by simp
      then show ?thesis ..
    qed
  qed
  show ?thesis
  proof (cases "x = 0")
    case True
    then have "round32 x = of_int 0 * quantum32 x" by (simp add: round32_def)
    then show ?thesis ..
  next
    case False
    then show ?thesis by (simp only: round32_def Let_def if_False g)
  qed
qed

lemma between_neighbours:
  assumes "9586980 / 2 ^ 26 < r" and "r < 9586981 / 2 ^ 26"
  shows "\<not> is_binary32 r"
proof
  assume "is_binary32 r"
  then have fx: "round32 r = r" by (simp add: is_binary32_def)
  from assms have pos: "0 < r" by simp
  have "float_exponent r = - 3"
    using assms pos by (intro float_exponent_unique) (simp_all add: power_int_minus)
  then have q: "quantum32 r = 1 / 2 ^ 26"
    by (simp add: quantum32_def power_int_minus)
  from round32_grid [of r] obtain m :: int where "r = of_int m * (1 / 2 ^ 26)"
    unfolding fx q by blast
  with assms have "9586980 < (of_int m :: rat)" "(of_int m :: rat) < 9586981" by simp_all
  then have "9586980 < m" "m < 9586981"
    by simp_all
  then show False by simp
qed

lemma round32_scaled_binary32:
  assumes "is_binary32 r"
  shows "round32 (21 * r) \<noteq> 3"
  using assms between_neighbours [OF round32_scaled] by blast

text \<open>
  The hit of \<open>ray_point\<close> on \<open>tri_scaled\<close> in binary32 arithmetic, for any \<^verbatim>\<open>rcp\<close>: the
  determinant is 7, the numerators are \<open>U = 1/4\<close>, \<open>V = 7/4\<close>, \<open>W = 5\<close> and \<open>T = 21\<close>, all
  computed without rounding, and the scaled bounds \<open>7 * 3 = 21\<close> are met with equality. The
  distance stored is the rounded product of 21 with \<^verbatim>\<open>rcp(7)\<close>.
\<close>

lemma scaled_numerators:
  "lane_det (binary32_ops rcp32) tri_scaled L0 ray_point L0 = 7"
  "lane_U (binary32_ops rcp32) tri_scaled L0 ray_point L0 = 1 / 4"
  "lane_V (binary32_ops rcp32) tri_scaled L0 ray_point L0 = 7 / 4"
  "lane_T (binary32_ops rcp32) tri_scaled L0 ray_point L0 = 21"
proof -
  have C: "lane_C (binary32_ops rcp32) tri_scaled L0 ray_point L0 = Vec3 (- (1 / 4)) (- (1 / 4)) (- 3)"
    by code_simp
  have R: "lane_R (binary32_ops rcp32) tri_scaled L0 ray_point L0 = Vec3 (- (1 / 4)) (1 / 4) 0"
    unfolding lane_R_def C by code_simp
  show det: "lane_det (binary32_ops rcp32) tri_scaled L0 ray_point L0 = 7"
    by code_simp
  show "lane_U (binary32_ops rcp32) tri_scaled L0 ray_point L0 = 1 / 4"
    unfolding lane_U_def R det by code_simp
  show "lane_V (binary32_ops rcp32) tri_scaled L0 ray_point L0 = 7 / 4"
    unfolding lane_V_def R det by code_simp
  show "lane_T (binary32_ops rcp32) tri_scaled L0 ray_point L0 = 21"
    unfolding lane_T_def C det by code_simp
qed

lemma scaled_hit:
  "lane_valid (binary32_ops rcp32) tri_scaled L0 ray_point L0"
  "lane_t (binary32_ops rcp32) tri_scaled L0 ray_point L0 = round32 (21 * rcp32 7)"
proof -
  have b: "round32 (27 / 4) = 27 / 4" "round32 5 = 5" "round32 21 = 21"
    by code_simp+
  have i: "lane_at (ray_tnear ray_point) L0 = 3" "lane_at (ray_tfar ray_point) L0 = 3"
    by code_simp+
  show "lane_valid (binary32_ops rcp32) tri_scaled L0 ray_point L0"
    unfolding lane_valid_def lane_W_def lane_absDet_def scaled_numerators i
    by (simp add: binary32_ops_def b)
  show "lane_t (binary32_ops rcp32) tri_scaled L0 ray_point L0 = round32 (21 * rcp32 7)"
    unfolding lane_t_def lane_absDet_def scaled_numerators
    by (simp add: binary32_ops_def)
qed

lemma scaled_tfar:
  "lane_at (ray_tfar (intersect (binary32_ops rcp32) (splat True) ray_point tri_scaled)) L0 =
     round32 (21 * rcp32 7)"
proof -
  have "slots tri_scaled = [L0]" by code_simp
  then have "intersect (binary32_ops rcp32) (splat True) ray_point tri_scaled =
      snd (intersect_slot (binary32_ops rcp32) (splat True) tri_scaled L0 ray_point)"
    by (simp add: intersect_def case_prod_beta)
  then show ?thesis
    by (simp add: intersect_slot_tfar scaled_hit lane_at_splat)
qed

text \<open>
  Whatever binary32 value \<^verbatim>\<open>rcp\<close> returns for 7, the distance stored is not 3: the call
  moves \<^verbatim>\<open>tfar\<close> out of the interval \<open>[3, 3]\<close> of the lane.
\<close>

lemma scaled_tfar_moves:
  assumes "is_binary32 (rcp32 7)"
  shows "lane_at (ray_tfar (intersect (binary32_ops rcp32) (splat True) ray_point tri_scaled)) L0 \<noteq> 3"
  unfolding scaled_tfar using assms by (rule round32_scaled_binary32)

lemma binary32_reciprocals: "is_binary32 (rcp_nearest 7)" "is_binary32 (rcp_truncated 7)"
  by code_simp+


lemma binary32_ops_sel:
  "fadd (binary32_ops rcp32) a b = round32 (a + b)"
  "fsub (binary32_ops rcp32) a b = round32 (a - b)"
  "fmul (binary32_ops rcp32) a b = round32 (a * b)"
  "fabs (binary32_ops rcp32) a = \<bar>a\<bar>"
  "frcp (binary32_ops rcp32) a = rcp32 a"
  "fge (binary32_ops rcp32) a b = (b \<le> a)"
  "fne (binary32_ops rcp32) a b = (a \<noteq> b)"
  "fzero (binary32_ops rcp32) = 0"
  by (simp_all add: binary32_ops_def)

lemma packet_interval:
  "lane_at (ray_tnear ray_packet) L0 = 0" "lane_at (ray_tfar ray_packet) L0 = 100"
  by code_simp+


text \<open>
  The quantities of a slot of the shape \<open>flat_slot\<close> at a lane that looks down, in
  binary32 arithmetic with any \<^verbatim>\<open>rcp\<close>: the determinant is \<open>a\<close>, the numerators are
  \<open>U = 1/4\<close>, \<open>V = a/4\<close> and \<open>T = a * d\<close> rounded.
\<close>

lemma binary32_ops_sel2:
  "fadd (binary32_ops rcp32) = (\<lambda>a b. round32 (a + b))"
  "fsub (binary32_ops rcp32) = (\<lambda>a b. round32 (a - b))"
  "fmul (binary32_ops rcp32) = (\<lambda>a b. round32 (a * b))"
  "fsignmsk (binary32_ops rcp32) a = (a < 0)"
  "fxor (binary32_ops rcp32) a s = (if s then - a else a)"
  by (simp_all add: binary32_ops_def)

lemma flat_lane:
  assumes flat: "flat_slot tri i a d"
    and down: "looks_down ray l"
    and a: "0 < a" "round32 a = a" "round32 (a / 4) = a / 4"
    and d: "round32 d = d"
  shows "lane_det (binary32_ops rcp32) tri i ray l = a"
    and "lane_U (binary32_ops rcp32) tri i ray l = 1 / 4"
    and "lane_V (binary32_ops rcp32) tri i ray l = a / 4"
    and "lane_T (binary32_ops rcp32) tri i ray l = round32 (a * d)"
proof -
  from flat have v0: "slot3 (tri_v0 tri) i = Vec3 0 0 (- d)"
    and e1: "slot3 (tri_e1 tri) i = Vec3 (- a) 0 0"
    and e2: "slot3 (tri_e2 tri) i = Vec3 0 1 0"
    and ng: "slot3 (tri_Ng tri) i = Vec3 0 0 (- a)"
    by (simp_all add: flat_slot_def)
  from down have org: "slot3 (ray_org ray) l = Vec3 (1 / 4) (1 / 4) 0"
    and dir: "slot3 (ray_dir ray) l = Vec3 0 0 (- 1)"
    by (simp_all add: looks_down_def)
  have q: "round32 (1 / 4) = 1 / 4" by code_simp
  have C: "lane_C (binary32_ops rcp32) tri i ray l = Vec3 (- (1 / 4)) (- (1 / 4)) (- d)"
    unfolding lane_C_def v0 org sub3_def binary32_ops_sel2
    by (simp add: round32_minus q d round32_zero)
  have R: "lane_R (binary32_ops rcp32) tri i ray l = Vec3 (- (1 / 4)) (1 / 4) 0"
    unfolding lane_R_def C dir cross_def binary32_ops_sel2
    by (simp add: round32_minus q round32_zero)
  show det: "lane_det (binary32_ops rcp32) tri i ray l = a"
    unfolding lane_det_def ng dir dot_def binary32_ops_sel2
    by (simp add: round32_zero a)
  from a(1) have neg: "\<not> a < 0" by simp
  show "lane_U (binary32_ops rcp32) tri i ray l = 1 / 4"
    unfolding lane_U_def det R e2 dot_def binary32_ops_sel2
    by (simp add: round32_zero q neg)
  show "lane_V (binary32_ops rcp32) tri i ray l = a / 4"
    unfolding lane_V_def det R e1 dot_def binary32_ops_sel2
    by (simp add: round32_zero a neg)
  show "lane_T (binary32_ops rcp32) tri i ray l = round32 (a * d)"
    unfolding lane_T_def det C ng dot_def binary32_ops_sel2
    by (simp add: round32_zero round32_idem neg)
qed


lemma flat_valid:
  assumes flat: "flat_slot tri i a d"
    and down: "looks_down ray l"
    and a: "0 < a" "round32 a = a" "round32 (a / 4) = a / 4"
    and d: "round32 d = d"
  shows "lane_valid (binary32_ops rcp32) tri i ray l \<longleftrightarrow>
           0 \<le> round32 (round32 (a - 1 / 4) - a / 4) \<and>
           round32 (a * lane_at (ray_tnear ray) l) \<le> round32 (a * d) \<and>
           round32 (a * d) \<le> round32 (a * lane_at (ray_tfar ray) l)"
  using a(1)
  unfolding lane_valid_def lane_W_def lane_absDet_def flat_lane [OF assms]
  by (simp add: binary32_ops_sel)

lemma flat_fields:
  assumes flat: "flat_slot tri i a d"
    and down: "looks_down ray l"
    and a: "0 < a" "round32 a = a" "round32 (a / 4) = a / 4"
    and d: "round32 d = d"
  shows "lane_t (binary32_ops rcp32) tri i ray l = round32 (round32 (a * d) * rcp32 a)"
    and "slot_fields (binary32_ops rcp32) tri i ray l =
       (round32 (1 / 4 * rcp32 a), round32 (a / 4 * rcp32 a), round32 (round32 (a * d) * rcp32 a),
        lane_at (tri_id0 tri) i, lane_at (tri_id1 tri) i, Vec3 0 0 (- a))"
proof -
  show t: "lane_t (binary32_ops rcp32) tri i ray l = round32 (round32 (a * d) * rcp32 a)"
    using a(1) unfolding lane_t_def lane_absDet_def flat_lane [OF assms]
    by (simp add: binary32_ops_sel)
  from flat have "slot3 (tri_Ng tri) i = Vec3 0 0 (- a)" by (simp add: flat_slot_def)
  then show "slot_fields (binary32_ops rcp32) tri i ray l =
       (round32 (1 / 4 * rcp32 a), round32 (a / 4 * rcp32 a), round32 (round32 (a * d) * rcp32 a),
        lane_at (tri_id0 tri) i, lane_at (tri_id1 tri) i, Vec3 0 0 (- a))"
    using a(1) unfolding slot_fields_def t lane_absDet_def flat_lane [OF assms]
    by (simp add: binary32_ops_sel)
qed

text \<open>After the hit of slot \<open>i\<close>, slot \<open>j\<close> is tested against the distance just stored.\<close>

lemma flat_valid_after:
  assumes act: "lane_at valid_i l"
    and hit: "lane_valid (binary32_ops rcp32) tri i ray l"
    and t: "lane_t (binary32_ops rcp32) tri i ray l = t0"
    and flat: "flat_slot tri j a d"
    and down: "looks_down ray l"
    and a: "0 < a" "round32 a = a" "round32 (a / 4) = a / 4"
    and d: "round32 d = d"
  shows "lane_valid (binary32_ops rcp32) tri j
           (snd (intersect_slot (binary32_ops rcp32) valid_i tri i ray)) l \<longleftrightarrow>
           0 \<le> round32 (round32 (a - 1 / 4) - a / 4) \<and>
           round32 (a * lane_at (ray_tnear ray) l) \<le> round32 (a * d) \<and>
           round32 (a * d) \<le> round32 (a * t0)"
  using a(1)
  unfolding lane_valid_after_hit [OF act hit] t lane_W_def lane_absDet_def
    flat_lane [OF flat down a d]
  by (simp add: binary32_ops_sel)

lemma looks_down_after:
  "looks_down (snd (intersect_slot ops valid_i tri i ray)) l = looks_down ray l"
  by (simp add: looks_down_def intersect_slot_inputs)

text \<open>The example leaves, their coordinates and the rounded products that occur below.\<close>

lemma leaf_shapes:
  "flat_slot tri_near_far L0 57 (2 - 3 / 2 ^ 22)"
  "flat_slot tri_near_far L1 57 (2 - 5 / 2 ^ 23)"
  "flat_slot tri_far_near L0 57 2"
  "flat_slot tri_far_near L1 57 (2 - 1 / 2 ^ 23)"
  "flat_slot tri_twice L0 41 2"
  "flat_slot tri_twice L1 41 2"
  "flat_slot tri_tie L0 1 0"
  "flat_slot tri_tie L1 1 0"
  "flat_slot tri_pair L0 1 2"
  "flat_slot tri_pair L1 1 5"
  "flat_slot tri_pair_swapped L0 1 5"
  "flat_slot tri_pair_swapped L1 1 2"
  "looks_down ray_packet L0"
  by code_simp+

lemma leaf_sizes:
  "tri_size tri_near_far = 2" "tri_size tri_far_near = 2" "tri_size tri_twice = 2"
  "tri_size tri_tie = 2" "tri_size tri_pair = 2" "tri_size tri_pair_swapped = 2"
  by (simp_all add: tri_near_far_def tri_far_near_def tri_twice_def tri_tie_def tri_pair_def
      tri_pair_swapped_def)

lemma binary32_values:
  "round32 57 = 57" "round32 (57 / 4) = 57 / 4"
  "round32 41 = 41" "round32 (41 / 4) = 41 / 4"
  "round32 1 = 1" "round32 (1 / 4) = 1 / 4"
  "round32 2 = 2" "round32 5 = 5"
  "round32 (2 - 3 / 2 ^ 22) = 2 - 3 / 2 ^ 22"
  "round32 (2 - 5 / 2 ^ 23) = 2 - 5 / 2 ^ 23"
  "round32 (2 - 1 / 2 ^ 23) = 2 - 1 / 2 ^ 23"
  by code_simp+

lemma products_57:
  "round32 (round32 (57 - 1 / 4) - 57 / 4) = 85 / 2"
  "round32 (57 * 100) = 5700"
  "round32 (57 * (2 - 3 / 2 ^ 22)) = 114 - 5 / 2 ^ 17"
  "round32 (57 * (2 - 5 / 2 ^ 23)) = 114 - 1 / 2 ^ 15"
  "round32 (57 * 2) = 114"
  "round32 (57 * (2 - 1 / 2 ^ 23)) = 114 - 1 / 2 ^ 17"
  "round32 (57 * (2 - 1 / 2 ^ 22)) = 114 - 1 / 2 ^ 16"
  "round32 ((114 - 5 / 2 ^ 17) * (2354697 / 2 ^ 27)) = 2 - 5 / 2 ^ 23"
  "round32 ((114 - 1 / 2 ^ 15) * (2354697 / 2 ^ 27)) = 2 - 1 / 2 ^ 21"
  "round32 (114 * (9418787 / 2 ^ 29)) = 2 - 1 / 2 ^ 22"
  "round32 ((114 - 1 / 2 ^ 17) * (9418787 / 2 ^ 29)) = 2 - 3 / 2 ^ 23"
  by code_simp+


lemma act0: "lane_at (splat True) L0"
  by (simp add: lane_at_splat)

lemma positive_normals: "(0::rat) < 57" "(0::rat) < 41" "(0::rat) < 1"
  by simp_all

lemma products_zero: "round32 (57 * 0) = 0" "round32 (41 * 0) = 0" "round32 (1 * 0) = 0"
  by (simp_all add: round32_zero)


lemma products_1:
  "round32 (round32 (1 - 1 / 4) - 1 / 4) = 1 / 2"
  "round32 (1 * 100) = 100"
  "round32 (1 * 2) = 2"
  "round32 (1 * 5) = 5"
  "round32 (1 * 4) = 4"
  "round32 (2 * 2) = 4"
  "round32 (5 * (1 / 2)) = 5 / 2"
  "round32 (1 * (5 / 2)) = 5 / 2"
  by code_simp+

lemma products_41:
  "round32 (round32 (41 - 1 / 4) - 41 / 4) = 61 / 2"
  "round32 (41 * 100) = 4100"
  "round32 (41 * 2) = 82"
  "round32 (82 * (3273603 / 2 ^ 27)) = 2 - 1 / 2 ^ 23"
  "round32 (41 * (2 - 1 / 2 ^ 23)) = 82 - 1 / 2 ^ 17"
  by code_simp+

lemma reciprocals_41:
  "rcp_nearest 41 = 3273603 / 2 ^ 27" "rcp_truncated 41 = 3273603 / 2 ^ 27"
  by code_simp+

lemma reciprocals_1: "rcp_nearest 1 = 1" "rcp_truncated 1 = 1"
  by code_simp+

lemma pair_ids:
  "lane_at (tri_id0 tri_pair) L0 = 7" "lane_at (tri_id1 tri_pair) L0 = 1"
  "lane_at (tri_id0 tri_pair_swapped) L1 = 7" "lane_at (tri_id1 tri_pair_swapped) L1 = 1"
  "lane_at (tri_id0 tri_tie) L0 = 7" "lane_at (tri_id1 tri_tie) L0 = 1"
  "lane_at (tri_id0 tri_tie) L1 = 9" "lane_at (tri_id1 tri_tie) L1 = 2"
  "lane_at (tri_id0 tri_twice) L0 = 7" "lane_at (tri_id1 tri_twice) L0 = 1"
  "lane_at (tri_id0 tri_twice) L1 = 9" "lane_at (tri_id1 tri_twice) L1 = 2"
  by code_simp+

text \<open>
  The two slots of \<open>tri_near_far\<close> at lane 0 of \<open>ray_packet\<close>: both pass the tests on the
  packet as received, whatever \<^verbatim>\<open>rcp\<close> returns. If \<^verbatim>\<open>rcp(57)\<close> is at least
  \<open>2354697 / 2^27\<close>, the distance stored for slot 0 is at least \<open>2 - 5/2^23\<close>, its product
  with 57 is rounded to at least the numerator of slot 1, and slot 1 overwrites the hit.
\<close>

lemma near_far_initial:
  "lane_valid (binary32_ops rcp32) tri_near_far L0 ray_packet L0"
  "lane_valid (binary32_ops rcp32) tri_near_far L1 ray_packet L0"
  "lane_t (binary32_ops rcp32) tri_near_far L0 ray_packet L0 = round32 ((114 - 5 / 2 ^ 17) * rcp32 57)"
  "lane_t (binary32_ops rcp32) tri_near_far L1 ray_packet L0 = round32 ((114 - 1 / 2 ^ 15) * rcp32 57)"
proof -
  note s0 = leaf_shapes(1) leaf_shapes(13) positive_normals(1) binary32_values(1,2,9)
  note s1 = leaf_shapes(2) leaf_shapes(13) positive_normals(1) binary32_values(1,2,10)
  show "lane_valid (binary32_ops rcp32) tri_near_far L0 ray_packet L0"
    by (simp only: flat_valid [OF s0] packet_interval products_57 products_zero; simp)
  show "lane_valid (binary32_ops rcp32) tri_near_far L1 ray_packet L0"
    by (simp only: flat_valid [OF s1] packet_interval products_57 products_zero; simp)
  show "lane_t (binary32_ops rcp32) tri_near_far L0 ray_packet L0 = round32 ((114 - 5 / 2 ^ 17) * rcp32 57)"
    by (simp only: flat_fields(1) [OF s0] products_57)
  show "lane_t (binary32_ops rcp32) tri_near_far L1 ray_packet L0 = round32 ((114 - 1 / 2 ^ 15) * rcp32 57)"
    by (simp only: flat_fields(1) [OF s1] products_57)
qed

lemma near_far_upper:
  assumes "2354697 / 2 ^ 27 \<le> rcp32 57"
  shows "lane_valid (binary32_ops rcp32) tri_near_far L1
           (snd (intersect_slot (binary32_ops rcp32) (splat True) tri_near_far L0 ray_packet)) L0"
    and "hit_fields (intersect (binary32_ops rcp32) (splat True) ray_packet tri_near_far) L0 =
           slot_fields (binary32_ops rcp32) tri_near_far L1 ray_packet L0"
proof -
  note s1 = leaf_shapes(2) leaf_shapes(13) positive_normals(1) binary32_values(1,2,10)
  have "(114 - 5 / 2 ^ 17) * (2354697 / 2 ^ 27) \<le> (114 - 5 / 2 ^ 17) * rcp32 57"
    by (rule mult_left_mono [OF assms]) simp
  then have "round32 ((114 - 5 / 2 ^ 17) * (2354697 / 2 ^ 27)) \<le> round32 ((114 - 5 / 2 ^ 17) * rcp32 57)"
    by (rule round32_mono)
  then have "2 - 5 / 2 ^ 23 \<le> round32 ((114 - 5 / 2 ^ 17) * rcp32 57)"
    by (simp only: products_57)
  then have "57 * (2 - 5 / 2 ^ 23) \<le> 57 * round32 ((114 - 5 / 2 ^ 17) * rcp32 57)"
    by (rule mult_left_mono) simp
  then have "round32 (57 * (2 - 5 / 2 ^ 23)) \<le> round32 (57 * round32 ((114 - 5 / 2 ^ 17) * rcp32 57))"
    by (rule round32_mono)
  then have bound: "114 - 1 / 2 ^ 15 \<le> round32 (57 * round32 ((114 - 5 / 2 ^ 17) * rcp32 57))"
    by (simp only: products_57)
  show second: "lane_valid (binary32_ops rcp32) tri_near_far L1
           (snd (intersect_slot (binary32_ops rcp32) (splat True) tri_near_far L0 ray_packet)) L0"
    using bound
    by (simp only: flat_valid_after [OF act0 near_far_initial(1) near_far_initial(3) s1]
        packet_interval products_57 products_zero; simp)
  show "hit_fields (intersect (binary32_ops rcp32) (splat True) ray_packet tri_near_far) L0 =
           slot_fields (binary32_ops rcp32) tri_near_far L1 ray_packet L0"
    by (rule second_slot_overwrites [OF leaf_sizes(1) act0 near_far_initial(1) second])
qed

text \<open>
  The two slots of \<open>tri_far_near\<close>: both pass the tests on the packet as received. If
  \<^verbatim>\<open>rcp(57)\<close> is at most \<open>9418787 / 2^29\<close>, the distance stored for slot 0 is at most
  \<open>2 - 1/2^22\<close>, its product with 57 is rounded below the numerator of slot 1, and slot 1
  is rejected.
\<close>

lemma far_near_initial:
  "lane_valid (binary32_ops rcp32) tri_far_near L0 ray_packet L0"
  "lane_valid (binary32_ops rcp32) tri_far_near L1 ray_packet L0"
  "lane_t (binary32_ops rcp32) tri_far_near L0 ray_packet L0 = round32 (114 * rcp32 57)"
  "lane_t (binary32_ops rcp32) tri_far_near L1 ray_packet L0 = round32 ((114 - 1 / 2 ^ 17) * rcp32 57)"
proof -
  note s0 = leaf_shapes(3) leaf_shapes(13) positive_normals(1) binary32_values(1,2,7)
  note s1 = leaf_shapes(4) leaf_shapes(13) positive_normals(1) binary32_values(1,2,11)
  show "lane_valid (binary32_ops rcp32) tri_far_near L0 ray_packet L0"
    by (simp only: flat_valid [OF s0] packet_interval products_57 products_zero; simp)
  show "lane_valid (binary32_ops rcp32) tri_far_near L1 ray_packet L0"
    by (simp only: flat_valid [OF s1] packet_interval products_57 products_zero; simp)
  show "lane_t (binary32_ops rcp32) tri_far_near L0 ray_packet L0 = round32 (114 * rcp32 57)"
    by (simp only: flat_fields(1) [OF s0] products_57)
  show "lane_t (binary32_ops rcp32) tri_far_near L1 ray_packet L0 = round32 ((114 - 1 / 2 ^ 17) * rcp32 57)"
    by (simp only: flat_fields(1) [OF s1] products_57)
qed

lemma far_near_lower:
  assumes "rcp32 57 \<le> 9418787 / 2 ^ 29"
  shows "\<not> lane_valid (binary32_ops rcp32) tri_far_near L1
           (snd (intersect_slot (binary32_ops rcp32) (splat True) tri_far_near L0 ray_packet)) L0"
    and "hit_fields (intersect (binary32_ops rcp32) (splat True) ray_packet tri_far_near) L0 =
           slot_fields (binary32_ops rcp32) tri_far_near L0 ray_packet L0"
proof -
  note s1 = leaf_shapes(4) leaf_shapes(13) positive_normals(1) binary32_values(1,2,11)
  have "114 * rcp32 57 \<le> 114 * (9418787 / 2 ^ 29)"
    by (rule mult_left_mono [OF assms]) simp
  then have "round32 (114 * rcp32 57) \<le> round32 (114 * (9418787 / 2 ^ 29))"
    by (rule round32_mono)
  then have "round32 (114 * rcp32 57) \<le> 2 - 1 / 2 ^ 22"
    by (simp only: products_57)
  then have "57 * round32 (114 * rcp32 57) \<le> 57 * (2 - 1 / 2 ^ 22)"
    by (rule mult_left_mono) simp
  then have "round32 (57 * round32 (114 * rcp32 57)) \<le> round32 (57 * (2 - 1 / 2 ^ 22))"
    by (rule round32_mono)
  then have bound: "round32 (57 * round32 (114 * rcp32 57)) \<le> 114 - 1 / 2 ^ 16"
    by (simp only: products_57)
  show second: "\<not> lane_valid (binary32_ops rcp32) tri_far_near L1
           (snd (intersect_slot (binary32_ops rcp32) (splat True) tri_far_near L0 ray_packet)) L0"
    using bound
    by (simp only: flat_valid_after [OF act0 far_near_initial(1) far_near_initial(3) s1]
        packet_interval products_57 products_zero; simp)
  show "hit_fields (intersect (binary32_ops rcp32) (splat True) ray_packet tri_far_near) L0 =
           slot_fields (binary32_ops rcp32) tri_far_near L0 ray_packet L0"
    by (rule second_slot_skipped [OF leaf_sizes(2) act0 far_near_initial(1) second])
qed

text \<open>
  The two bounds are the binary32 values that enclose \<open>1/57\<close>; no binary32 value lies
  between them. So whatever binary32 value \<^verbatim>\<open>rcp\<close> returns for 57, one of the two calls
  ends with the farther triangle.
\<close>

lemma neighbours_57:
  assumes "is_binary32 r"
  shows "r \<le> 9418787 / 2 ^ 29 \<or> 2354697 / 2 ^ 27 \<le> r"
proof (rule ccontr)
  assume "\<not> (r \<le> 9418787 / 2 ^ 29 \<or> 2354697 / 2 ^ 27 \<le> r)"
  then have lo: "9418787 / 2 ^ 29 < r" and hi: "r < 2354697 / 2 ^ 27" by simp_all
  from assms have fx: "round32 r = r" by (simp add: is_binary32_def)
  from lo have pos: "0 < r" by simp
  have "float_exponent r = - 6"
    using lo hi pos by (intro float_exponent_unique) (simp_all add: power_int_minus)
  then have q: "quantum32 r = 1 / 2 ^ 29"
    by (simp add: quantum32_def power_int_minus)
  from round32_grid [of r] obtain m :: int where "r = of_int m * (1 / 2 ^ 29)"
    unfolding fx q by blast
  with lo hi have "9418787 < (of_int m :: rat)" "(of_int m :: rat) < 9418788" by simp_all
  then have "9418787 < m" "m < 9418788" by simp_all
  then show False by simp
qed

lemma farther_ids:
  "lane_at (tri_id0 tri_near_far) L1 = 9" "lane_at (tri_id0 tri_far_near) L0 = 9"
  "lane_at (tri_id0 tri_near_far) L0 = 7" "lane_at (tri_id0 tri_far_near) L1 = 7"
  by code_simp+

lemma nearest_lost:
  assumes "is_binary32 (rcp32 57)"
  shows "lane_at (ray_id0 (intersect (binary32_ops rcp32) (splat True) ray_packet tri_near_far)) L0 = 9 \<or>
         lane_at (ray_id0 (intersect (binary32_ops rcp32) (splat True) ray_packet tri_far_near)) L0 = 9"
proof -
  from neighbours_57 [OF assms] show ?thesis
  proof
    assume "rcp32 57 \<le> 9418787 / 2 ^ 29"
    from far_near_lower(2) [of rcp32, OF this]
    have "lane_at (ray_id0 (intersect (binary32_ops rcp32) (splat True) ray_packet tri_far_near)) L0 = 9"
      by (simp add: hit_fields_def slot_fields_def farther_ids)
    then show ?thesis ..
  next
    assume "2354697 / 2 ^ 27 \<le> rcp32 57"
    from near_far_upper(2) [of rcp32, OF this]
    have "lane_at (ray_id0 (intersect (binary32_ops rcp32) (splat True) ray_packet tri_near_far)) L0 = 9"
      by (simp add: hit_fields_def slot_fields_def farther_ids)
    then show ?thesis ..
  qed
qed


text \<open>
  The example of the spec, two triangles at the distances 2 and 5, in binary32 arithmetic:
  for every \<^verbatim>\<open>rcp\<close> with \<open>1/2 \<le> rcp(1) \<le> 2\<close> the call ends with the nearer triangle, in
  either slot order.
\<close>

lemma pair_binary32:
  assumes "1 / 2 \<le> rcp32 1" and "rcp32 1 \<le> 2"
  shows "hit_fields (intersect (binary32_ops rcp32) (splat True) ray_packet tri_pair) L0 =
           (round32 (1 / 4 * rcp32 1), round32 (1 / 4 * rcp32 1), round32 (2 * rcp32 1), 7, 1, Vec3 0 0 (- 1))"
    and "hit_fields (intersect (binary32_ops rcp32) (splat True) ray_packet tri_pair_swapped) L0 =
           (round32 (1 / 4 * rcp32 1), round32 (1 / 4 * rcp32 1), round32 (2 * rcp32 1), 7, 1, Vec3 0 0 (- 1))"
proof -
  note p0 = leaf_shapes(9) leaf_shapes(13) positive_normals(3) binary32_values(5,6,7)
  note p1 = leaf_shapes(10) leaf_shapes(13) positive_normals(3) binary32_values(5,6,8)
  note q0 = leaf_shapes(11) leaf_shapes(13) positive_normals(3) binary32_values(5,6,8)
  note q1 = leaf_shapes(12) leaf_shapes(13) positive_normals(3) binary32_values(5,6,7)
  have v0: "lane_valid (binary32_ops rcp32) tri_pair L0 ray_packet L0"
    by (simp only: flat_valid [OF p0] packet_interval products_1 products_zero; simp)
  have t0: "lane_t (binary32_ops rcp32) tri_pair L0 ray_packet L0 = round32 (2 * rcp32 1)"
    by (simp only: flat_fields(1) [OF p0] products_1)
  have "2 * rcp32 1 \<le> 2 * 2" by (rule mult_left_mono [OF assms(2)]) simp
  then have "round32 (2 * rcp32 1) \<le> round32 (2 * 2)" by (rule round32_mono)
  then have "round32 (2 * rcp32 1) \<le> 4" by (simp only: products_1)
  then have "1 * round32 (2 * rcp32 1) \<le> 1 * 4" by (rule mult_left_mono) simp
  then have "round32 (1 * round32 (2 * rcp32 1)) \<le> round32 (1 * 4)" by (rule round32_mono)
  then have b: "round32 (1 * round32 (2 * rcp32 1)) \<le> 4" by (simp only: products_1)
  have skip: "\<not> lane_valid (binary32_ops rcp32) tri_pair L1
           (snd (intersect_slot (binary32_ops rcp32) (splat True) tri_pair L0 ray_packet)) L0"
    using b
    by (simp only: flat_valid_after [OF act0 v0 t0 p1] packet_interval products_1 products_zero; simp)
  have "hit_fields (intersect (binary32_ops rcp32) (splat True) ray_packet tri_pair) L0 =
      slot_fields (binary32_ops rcp32) tri_pair L0 ray_packet L0"
    by (rule second_slot_skipped [OF leaf_sizes(5) act0 v0 skip])
  then show "hit_fields (intersect (binary32_ops rcp32) (splat True) ray_packet tri_pair) L0 =
           (round32 (1 / 4 * rcp32 1), round32 (1 / 4 * rcp32 1), round32 (2 * rcp32 1), 7, 1, Vec3 0 0 (- 1))"
    by (simp only: flat_fields(2) [OF p0] products_1 pair_ids)
  have w0: "lane_valid (binary32_ops rcp32) tri_pair_swapped L0 ray_packet L0"
    by (simp only: flat_valid [OF q0] packet_interval products_1 products_zero; simp)
  have u0: "lane_t (binary32_ops rcp32) tri_pair_swapped L0 ray_packet L0 = round32 (5 * rcp32 1)"
    by (simp only: flat_fields(1) [OF q0] products_1)
  have "5 * (1 / 2) \<le> 5 * rcp32 1" by (rule mult_left_mono [OF assms(1)]) simp
  then have "round32 (5 * (1 / 2)) \<le> round32 (5 * rcp32 1)" by (rule round32_mono)
  then have "5 / 2 \<le> round32 (5 * rcp32 1)" by (simp only: products_1)
  then have "1 * (5 / 2) \<le> 1 * round32 (5 * rcp32 1)" by (rule mult_left_mono) simp
  then have "round32 (1 * (5 / 2)) \<le> round32 (1 * round32 (5 * rcp32 1))" by (rule round32_mono)
  then have c: "5 / 2 \<le> round32 (1 * round32 (5 * rcp32 1))" by (simp only: products_1)
  have over: "lane_valid (binary32_ops rcp32) tri_pair_swapped L1
           (snd (intersect_slot (binary32_ops rcp32) (splat True) tri_pair_swapped L0 ray_packet)) L0"
    using c
    by (simp only: flat_valid_after [OF act0 w0 u0 q1] packet_interval products_1 products_zero; simp)
  have "hit_fields (intersect (binary32_ops rcp32) (splat True) ray_packet tri_pair_swapped) L0 =
      slot_fields (binary32_ops rcp32) tri_pair_swapped L1 ray_packet L0"
    by (rule second_slot_overwrites [OF leaf_sizes(6) act0 w0 over])
  then show "hit_fields (intersect (binary32_ops rcp32) (splat True) ray_packet tri_pair_swapped) L0 =
           (round32 (1 / 4 * rcp32 1), round32 (1 / 4 * rcp32 1), round32 (2 * rcp32 1), 7, 1, Vec3 0 0 (- 1))"
    by (simp only: flat_fields(2) [OF q1] products_1 pair_ids)
qed


text \<open>
  A tie at distance 2, in binary32 arithmetic. In \<open>tri_twice\<close> the same triangle, with a
  normal of length 41, occupies slots 0 and 1. If \<^verbatim>\<open>rcp(41)\<close> is at most \<open>3273603 / 2^27\<close>,
  as it is when the reciprocal is rounded to nearest or toward zero, slot 0 records a
  distance of at most \<open>2 - 1/2^23\<close>; slot 1 produces the same distance, but its numerator
  \<open>T = 82\<close> is above the rounded product of 41 and that distance, and the hit of slot 0
  stays.
\<close>

lemma twice_kept:
  assumes "rcp32 41 \<le> 3273603 / 2 ^ 27"
  shows "lane_valid (binary32_ops rcp32) tri_twice L0 ray_packet L0"
    and "lane_at (ray_tfar (snd (intersect_slot (binary32_ops rcp32) (splat True) tri_twice L0 ray_packet))) L0 =
           round32 (82 * rcp32 41)"
    and "lane_t (binary32_ops rcp32) tri_twice L1
           (snd (intersect_slot (binary32_ops rcp32) (splat True) tri_twice L0 ray_packet)) L0 =
           round32 (82 * rcp32 41)"
    and "\<not> lane_valid (binary32_ops rcp32) tri_twice L1
           (snd (intersect_slot (binary32_ops rcp32) (splat True) tri_twice L0 ray_packet)) L0"
    and "hit_fields (intersect (binary32_ops rcp32) (splat True) ray_packet tri_twice) L0 =
           (round32 (1 / 4 * rcp32 41), round32 (41 / 4 * rcp32 41), round32 (82 * rcp32 41), 7, 1,
            Vec3 0 0 (- 41))"
proof -
  let ?r = "snd (intersect_slot (binary32_ops rcp32) (splat True) tri_twice L0 ray_packet)"
  note z0 = leaf_shapes(5) leaf_shapes(13) positive_normals(2) binary32_values(3,4,7)
  note z1 = leaf_shapes(6) leaf_shapes(13) positive_normals(2) binary32_values(3,4,7)
  have down: "looks_down ?r L0" by (simp only: looks_down_after leaf_shapes(13))
  note y1 = leaf_shapes(6) down positive_normals(2) binary32_values(3,4,7)
  show v0: "lane_valid (binary32_ops rcp32) tri_twice L0 ray_packet L0"
    by (simp only: flat_valid [OF z0] packet_interval products_41 products_zero; simp)
  have t0: "lane_t (binary32_ops rcp32) tri_twice L0 ray_packet L0 = round32 (82 * rcp32 41)"
    by (simp only: flat_fields(1) [OF z0] products_41)
  show "lane_at (ray_tfar ?r) L0 = round32 (82 * rcp32 41)"
    using v0 act0 by (simp add: intersect_slot_tfar t0)
  show "lane_t (binary32_ops rcp32) tri_twice L1 ?r L0 = round32 (82 * rcp32 41)"
    by (simp only: flat_fields(1) [OF y1] products_41)
  have "82 * rcp32 41 \<le> 82 * (3273603 / 2 ^ 27)"
    by (rule mult_left_mono [OF assms]) simp
  then have "round32 (82 * rcp32 41) \<le> round32 (82 * (3273603 / 2 ^ 27))"
    by (rule round32_mono)
  then have "round32 (82 * rcp32 41) \<le> 2 - 1 / 2 ^ 23"
    by (simp only: products_41)
  then have "41 * round32 (82 * rcp32 41) \<le> 41 * (2 - 1 / 2 ^ 23)"
    by (rule mult_left_mono) simp
  then have "round32 (41 * round32 (82 * rcp32 41)) \<le> round32 (41 * (2 - 1 / 2 ^ 23))"
    by (rule round32_mono)
  then have bound: "round32 (41 * round32 (82 * rcp32 41)) \<le> 82 - 1 / 2 ^ 17"
    by (simp only: products_41)
  show skip: "\<not> lane_valid (binary32_ops rcp32) tri_twice L1 ?r L0"
    using bound
    by (simp only: flat_valid_after [OF act0 v0 t0 z1] packet_interval products_41 products_zero; simp)
  have "hit_fields (intersect (binary32_ops rcp32) (splat True) ray_packet tri_twice) L0 =
      slot_fields (binary32_ops rcp32) tri_twice L0 ray_packet L0"
    by (rule second_slot_skipped [OF leaf_sizes(3) act0 v0 skip])
  then show "hit_fields (intersect (binary32_ops rcp32) (splat True) ray_packet tri_twice) L0 =
           (round32 (1 / 4 * rcp32 41), round32 (41 / 4 * rcp32 41), round32 (82 * rcp32 41), 7, 1,
            Vec3 0 0 (- 41))"
    by (simp only: flat_fields(2) [OF z0] products_41 pair_ids)
qed


text \<open>
  With the reciprocal of 41 rounded to nearest and with the reciprocal rounded toward
  zero, both \<open>3273603 / 2^27\<close>: the distance that slot 1 of \<open>tri_twice\<close> produces equals
  the \<^verbatim>\<open>tfar\<close> that slot 0 recorded, \<open>2 - 1/2^23\<close>, and the call ends with the identifier
  7 of slot 0.
\<close>

lemma twice_kept_reciprocals:
  "lane_at (ray_tfar (snd (intersect_slot (binary32_ops rcp_nearest) (splat True) tri_twice L0 ray_packet))) L0 =
     2 - 1 / 2 ^ 23"
  "lane_t (binary32_ops rcp_nearest) tri_twice L1
     (snd (intersect_slot (binary32_ops rcp_nearest) (splat True) tri_twice L0 ray_packet)) L0 = 2 - 1 / 2 ^ 23"
  "lane_at (ray_id0 (intersect (binary32_ops rcp_nearest) (splat True) ray_packet tri_twice)) L0 = 7"
  "lane_at (ray_tfar (snd (intersect_slot (binary32_ops rcp_truncated) (splat True) tri_twice L0 ray_packet))) L0 =
     2 - 1 / 2 ^ 23"
  "lane_t (binary32_ops rcp_truncated) tri_twice L1
     (snd (intersect_slot (binary32_ops rcp_truncated) (splat True) tri_twice L0 ray_packet)) L0 = 2 - 1 / 2 ^ 23"
  "lane_at (ray_id0 (intersect (binary32_ops rcp_truncated) (splat True) ray_packet tri_twice)) L0 = 7"
proof -
  have n: "rcp_nearest 41 \<le> 3273603 / 2 ^ 27" and t: "rcp_truncated 41 \<le> 3273603 / 2 ^ 27"
    by (simp_all only: reciprocals_41)
  have p: "round32 (82 * rcp_nearest 41) = 2 - 1 / 2 ^ 23"
    "round32 (82 * rcp_truncated 41) = 2 - 1 / 2 ^ 23"
    by (simp_all only: reciprocals_41 products_41)
  from twice_kept(2,3,5) [of rcp_nearest, OF n]
  show "lane_at (ray_tfar (snd (intersect_slot (binary32_ops rcp_nearest) (splat True) tri_twice L0 ray_packet))) L0 =
     2 - 1 / 2 ^ 23"
    "lane_t (binary32_ops rcp_nearest) tri_twice L1
     (snd (intersect_slot (binary32_ops rcp_nearest) (splat True) tri_twice L0 ray_packet)) L0 = 2 - 1 / 2 ^ 23"
    "lane_at (ray_id0 (intersect (binary32_ops rcp_nearest) (splat True) ray_packet tri_twice)) L0 = 7"
    by (simp_all add: p hit_fields_def)
  from twice_kept(2,3,5) [of rcp_truncated, OF t]
  show "lane_at (ray_tfar (snd (intersect_slot (binary32_ops rcp_truncated) (splat True) tri_twice L0 ray_packet))) L0 =
     2 - 1 / 2 ^ 23"
    "lane_t (binary32_ops rcp_truncated) tri_twice L1
     (snd (intersect_slot (binary32_ops rcp_truncated) (splat True) tri_twice L0 ray_packet)) L0 = 2 - 1 / 2 ^ 23"
    "lane_at (ray_id0 (intersect (binary32_ops rcp_truncated) (splat True) ray_packet tri_twice)) L0 = 7"
    by (simp_all add: p hit_fields_def)
qed



section \<open>Properties in exact arithmetic\<close>

lemma exact_ops_sel:
  "fadd exact_ops a b = a + b"
  "fsub exact_ops a b = a - b"
  "fmul exact_ops a b = a * b"
  "fabs exact_ops a = \<bar>a\<bar>"
  "fsignmsk exact_ops a = (a < 0)"
  "fxor exact_ops a s = (if s then - a else a)"
  "frcp exact_ops a = 1 / a"
  "fge exact_ops a b = (b \<le> a)"
  "fne exact_ops a b = (a \<noteq> b)"
  "fzero exact_ops = 0"
  by (simp_all add: exact_ops_def)

lemma exact_lane_valid:
  "lane_valid exact_ops tri i ray l \<longleftrightarrow>
     lane_det exact_ops tri i ray l \<noteq> 0 \<and>
     0 \<le> lane_U exact_ops tri i ray l \<and>
     0 \<le> lane_V exact_ops tri i ray l \<and>
     lane_U exact_ops tri i ray l + lane_V exact_ops tri i ray l \<le> \<bar>lane_det exact_ops tri i ray l\<bar> \<and>
     \<bar>lane_det exact_ops tri i ray l\<bar> * lane_at (ray_tnear ray) l \<le> lane_T exact_ops tri i ray l \<and>
     lane_T exact_ops tri i ray l \<le> \<bar>lane_det exact_ops tri i ray l\<bar> * lane_at (ray_tfar ray) l"
  unfolding lane_valid_def lane_W_def lane_absDet_def
  by (auto simp add: exact_ops_sel)

















text \<open>
  The sign correction in exact arithmetic: a numerator with its sign flipped where the
  determinant is negative, over the absolute determinant, is the numerator over the
  determinant.
\<close>

lemma exact_sign_free:
  fixes d a :: rat
  assumes "d \<noteq> 0"
  shows "(if d < 0 then - a else a) / \<bar>d\<bar> = a / d"
  using assms by (auto simp add: field_simps abs_if)

lemma exact_solution:
  assumes "lane_det exact_ops tri i ray l \<noteq> 0"
  shows "lane_U exact_ops tri i ray l / \<bar>lane_det exact_ops tri i ray l\<bar> = mt_u tri i ray l"
    and "lane_V exact_ops tri i ray l / \<bar>lane_det exact_ops tri i ray l\<bar> = mt_v tri i ray l"
    and "lane_T exact_ops tri i ray l / \<bar>lane_det exact_ops tri i ray l\<bar> = mt_t tri i ray l"
  using assms exact_sign_free [of "lane_det exact_ops tri i ray l"]
  unfolding lane_U_def lane_V_def lane_T_def mt_u_def mt_v_def mt_t_def
  by (simp_all add: exact_ops_sel dot_def)

lemma exact_two_sided: "lane_valid exact_ops tri i ray l = two_sided_accept tri i ray l"
proof (cases "lane_det exact_ops tri i ray l = 0")
  case True
  then show ?thesis by (simp add: exact_lane_valid two_sided_accept_def)
next
  case False
  then have pos: "0 < \<bar>lane_det exact_ops tri i ray l\<bar>" by simp
  note sol = exact_solution [OF False, symmetric]
  show ?thesis
    unfolding exact_lane_valid two_sided_accept_def sol
    using pos False
    by (simp add: zero_le_divide_iff pos_le_divide_eq pos_divide_le_eq mult.commute
        add_divide_distrib [symmetric])
qed

section \<open>Both faces of a triangle\<close>

text \<open>
  Under the sign laws the tests of one lane against one slot are \<open>two_sided_test\<close>, and
  the values that lines 86 to 93 write are \<open>two_sided_hit\<close>.
\<close>

lemma sign_valid:
  assumes "sign_laws ops neg"
  shows "lane_valid ops tri i ray l = two_sided_test ops neg tri i ray l"
proof (cases "fne ops (lane_det ops tri i ray l) (fzero ops)")
  case False
  then show ?thesis by (simp add: lane_valid_def two_sided_test_def Let_def)
next
  case nz: True
  show ?thesis
  proof (cases "fge ops (lane_det ops tri i ray l) (fzero ops)")
    case True
    with nz assms have s: "fabs ops (lane_det ops tri i ray l) = lane_det ops tri i ray l"
      "\<And>a. fxor ops a (fsignmsk ops (lane_det ops tri i ray l)) = a"
      by (simp_all add: sign_laws_def)
    show ?thesis
      unfolding lane_valid_def lane_W_def lane_absDet_def lane_U_def lane_V_def lane_T_def s
        two_sided_test_def Let_def edge_depth_tests_def num_U_def num_V_def num_T_def
      using nz True by simp
  next
    case False
    with nz assms have s: "fabs ops (lane_det ops tri i ray l) = neg (lane_det ops tri i ray l)"
      "\<And>a. fxor ops a (fsignmsk ops (lane_det ops tri i ray l)) = neg a"
      by (simp_all add: sign_laws_def)
    show ?thesis
      unfolding lane_valid_def lane_W_def lane_absDet_def lane_U_def lane_V_def lane_T_def s
        two_sided_test_def Let_def edge_depth_tests_def num_U_def num_V_def num_T_def
      using nz False by simp
  qed
qed

lemma sign_fields:
  assumes "sign_laws ops neg" and nz: "fne ops (lane_det ops tri i ray l) (fzero ops)"
  shows "slot_fields ops tri i ray l = two_sided_hit ops neg tri i ray l"
proof (cases "fge ops (lane_det ops tri i ray l) (fzero ops)")
  case True
  with nz assms(1) have s: "fabs ops (lane_det ops tri i ray l) = lane_det ops tri i ray l"
    "\<And>a. fxor ops a (fsignmsk ops (lane_det ops tri i ray l)) = a"
    by (simp_all add: sign_laws_def)
  show ?thesis
    unfolding slot_fields_def lane_t_def lane_absDet_def lane_U_def lane_V_def lane_T_def s
      two_sided_hit_def Let_def normalised_def num_U_def num_V_def num_T_def
    using True by simp
next
  case False
  with nz assms(1) have s: "fabs ops (lane_det ops tri i ray l) = neg (lane_det ops tri i ray l)"
    "\<And>a. fxor ops a (fsignmsk ops (lane_det ops tri i ray l)) = neg a"
    by (simp_all add: sign_laws_def)
  show ?thesis
    unfolding slot_fields_def lane_t_def lane_absDet_def lane_U_def lane_V_def lane_T_def s
      two_sided_hit_def Let_def normalised_def num_U_def num_V_def num_T_def
    using False by simp
qed

lemma sign_laws_exact: "sign_laws exact_ops uminus"
  by (simp add: sign_laws_def exact_ops_def)

lemma sign_laws_binary32: "sign_laws (binary32_ops rcp32) uminus"
  by (simp add: sign_laws_def binary32_ops_def)

text \<open>
  Claim C9. The test is double-sided, in every lane arithmetic that satisfies the sign
  laws (exact arithmetic and binary32 arithmetic do). For every packet, leaf, slot and
  lane: the lane passes the slot, in \<^verbatim>\<open>intersect\<close> and in \<^verbatim>\<open>occluded\<close> alike, exactly
  when it is active, the determinant is not zero and the edge and depth tests hold of the
  determinant and the three numerators; a negative determinant is tested by the same
  predicate as a positive one, applied to the negated determinant and the negated
  numerators, and the values recorded are normalised in the same way. \<^verbatim>\<open>intersect\<close>
  writes these values where the lane passes and keeps the hit fields elsewhere;
  \<^verbatim>\<open>occluded\<close> returns true for an active lane exactly when some slot passes; and a call
  of \<^verbatim>\<open>intersect\<close> ends with the values of one of the slots if some slot passes on the
  packet received. Neither function tests the sign of the determinant on its own, so
  neither culls back faces.
\<close>

theorem double_sided:
  assumes "sign_laws ops neg"
  shows "lane_at (fst (intersect_slot ops valid_i tri i ray)) l =
           (lane_at valid_i l \<and> two_sided_test ops neg tri i ray l) \<and>
         (case occluded_slot ops valid_i tri i ray of None \<Rightarrow> False | Some valid \<Rightarrow> lane_at valid l) =
           (lane_at valid_i l \<and> two_sided_test ops neg tri i ray l) \<and>
         hit_fields (snd (intersect_slot ops valid_i tri i ray)) l =
           (if lane_at valid_i l \<and> two_sided_test ops neg tri i ray l
            then two_sided_hit ops neg tri i ray l else hit_fields ray l) \<and>
         lane_at (fst (occluded ops valid_i ray tri)) l =
           (\<not> lane_at valid_i l \<or> (\<exists>k\<in>set (slots tri). two_sided_test ops neg tri k ray l)) \<and>
         (if lane_at valid_i l \<and> (\<exists>k\<in>set (slots tri). two_sided_test ops neg tri k ray l)
          then \<exists>k\<in>set (slots tri).
                 hit_fields (intersect ops valid_i ray tri) l = two_sided_hit ops neg tri k ray l
          else hit_fields (intersect ops valid_i ray tri) l = hit_fields ray l)"
proof -
  note v = sign_valid [OF assms]
  have nz: "two_sided_test ops neg tri k ray l \<Longrightarrow> fne ops (lane_det ops tri k ray l) (fzero ops)" for k
    by (simp add: two_sided_test_def Let_def)
  have a: "lane_at (fst (intersect_slot ops valid_i tri i ray)) l =
           (lane_at valid_i l \<and> two_sided_test ops neg tri i ray l)"
    by (simp add: intersect_slot_valid v)
  have b: "(case occluded_slot ops valid_i tri i ray of None \<Rightarrow> False | Some valid \<Rightarrow> lane_at valid l) =
           (lane_at valid_i l \<and> two_sided_test ops neg tri i ray l)"
    by (simp add: occluded_slot_valid v)
  have c: "hit_fields (snd (intersect_slot ops valid_i tri i ray)) l =
           (if lane_at valid_i l \<and> two_sided_test ops neg tri i ray l
            then two_sided_hit ops neg tri i ray l else hit_fields ray l)"
    using sign_fields [OF assms nz, of i]
    by (simp add: intersect_slot_fields v)
  have d: "lane_at (fst (occluded ops valid_i ray tri)) l =
           (\<not> lane_at valid_i l \<or> (\<exists>k\<in>set (slots tri). two_sided_test ops neg tri k ray l))"
    by (auto simp add: occluded_def occluded_loop_lane lane_at_not_b v)
  have e: "if lane_at valid_i l \<and> (\<exists>k\<in>set (slots tri). two_sided_test ops neg tri k ray l)
          then \<exists>k\<in>set (slots tri).
                 hit_fields (intersect ops valid_i ray tri) l = two_sided_hit ops neg tri k ray l
          else hit_fields (intersect ops valid_i ray tri) l = hit_fields ray l"
    using intersect_loop_records [of valid_i l "slots tri" ops tri ray "splat False"]
      sign_fields [OF assms]
    unfolding intersect_def v
    by (auto split: if_splits)
  from a b c d e show ?thesis by (simp only: simp_thms)
qed

lemma num_inputs:
  "lane_det ops tri j (snd (intersect_slot ops valid_i tri i ray)) l = lane_det ops tri j ray l"
  "num_U ops tri j (snd (intersect_slot ops valid_i tri i ray)) l = num_U ops tri j ray l"
  "num_V ops tri j (snd (intersect_slot ops valid_i tri i ray)) l = num_V ops tri j ray l"
  "num_T ops tri j (snd (intersect_slot ops valid_i tri i ray)) l = num_T ops tri j ray l"
  by (simp_all add: lane_det_def num_U_def num_V_def num_T_def lane_R_def lane_C_def
      intersect_slot_inputs)

text \<open>
  The two faces of the first triangle of \<open>tri_pair\<close>, in binary32 arithmetic: lane 0 of
  \<open>ray_packet\<close> meets it from the front and lane 2 from the back, at the same point of
  the triangle. The determinants and the numerators are opposite.
\<close>

lemma two_faces:
  "lane_det (binary32_ops rcp32) tri_pair L0 ray_packet L0 = 1"
  "num_U (binary32_ops rcp32) tri_pair L0 ray_packet L0 = 1 / 4"
  "num_V (binary32_ops rcp32) tri_pair L0 ray_packet L0 = 1 / 4"
  "num_T (binary32_ops rcp32) tri_pair L0 ray_packet L0 = 2"
  "lane_det (binary32_ops rcp32) tri_pair L0 ray_packet L2 = - 1"
  "num_U (binary32_ops rcp32) tri_pair L0 ray_packet L2 = - (1 / 4)"
  "num_V (binary32_ops rcp32) tri_pair L0 ray_packet L2 = - (1 / 4)"
  "num_T (binary32_ops rcp32) tri_pair L0 ray_packet L2 = - 8"
  "lane_det (binary32_ops rcp32) tri_pair L1 ray_packet L2 = - 1"
  "num_U (binary32_ops rcp32) tri_pair L1 ray_packet L2 = - (1 / 4)"
  "num_V (binary32_ops rcp32) tri_pair L1 ray_packet L2 = - (1 / 4)"
  "num_T (binary32_ops rcp32) tri_pair L1 ray_packet L2 = - 5"
proof -
  have C0: "lane_C (binary32_ops rcp32) tri_pair L0 ray_packet L0 = Vec3 (- (1 / 4)) (- (1 / 4)) (- 2)"
    and C2: "lane_C (binary32_ops rcp32) tri_pair L0 ray_packet L2 = Vec3 (- (1 / 4)) (- (1 / 4)) 8"
    and C3: "lane_C (binary32_ops rcp32) tri_pair L1 ray_packet L2 = Vec3 (- (1 / 4)) (- (1 / 4)) 5"
    by code_simp+
  have R0: "lane_R (binary32_ops rcp32) tri_pair L0 ray_packet L0 = Vec3 (- (1 / 4)) (1 / 4) 0"
    unfolding lane_R_def C0 by code_simp
  have R2: "lane_R (binary32_ops rcp32) tri_pair L0 ray_packet L2 = Vec3 (1 / 4) (- (1 / 4)) 0"
    unfolding lane_R_def C2 by code_simp
  have R3: "lane_R (binary32_ops rcp32) tri_pair L1 ray_packet L2 = Vec3 (1 / 4) (- (1 / 4)) 0"
    unfolding lane_R_def C3 by code_simp
  show "lane_det (binary32_ops rcp32) tri_pair L0 ray_packet L0 = 1"
    "lane_det (binary32_ops rcp32) tri_pair L0 ray_packet L2 = - 1"
    "lane_det (binary32_ops rcp32) tri_pair L1 ray_packet L2 = - 1"
    by code_simp+
  show "num_U (binary32_ops rcp32) tri_pair L0 ray_packet L0 = 1 / 4"
    unfolding num_U_def R0 by code_simp
  show "num_V (binary32_ops rcp32) tri_pair L0 ray_packet L0 = 1 / 4"
    unfolding num_V_def R0 by code_simp
  show "num_T (binary32_ops rcp32) tri_pair L0 ray_packet L0 = 2"
    unfolding num_T_def C0 by code_simp
  show "num_U (binary32_ops rcp32) tri_pair L0 ray_packet L2 = - (1 / 4)"
    unfolding num_U_def R2 by code_simp
  show "num_V (binary32_ops rcp32) tri_pair L0 ray_packet L2 = - (1 / 4)"
    unfolding num_V_def R2 by code_simp
  show "num_T (binary32_ops rcp32) tri_pair L0 ray_packet L2 = - 8"
    unfolding num_T_def C2 by code_simp
  show "num_U (binary32_ops rcp32) tri_pair L1 ray_packet L2 = - (1 / 4)"
    unfolding num_U_def R3 by code_simp
  show "num_V (binary32_ops rcp32) tri_pair L1 ray_packet L2 = - (1 / 4)"
    unfolding num_V_def R3 by code_simp
  show "num_T (binary32_ops rcp32) tri_pair L1 ray_packet L2 = - 5"
    unfolding num_T_def C3 by code_simp
qed

lemma packet_intervals:
  "lane_at (ray_tnear ray_packet) l = 0" "lane_at (ray_tfar ray_packet) l = 100"
  by (simp_all add: ray_packet_def lane_at_splat)

lemma binary32_small:
  "round32 (3 / 4) = 3 / 4" "round32 (1 / 2) = 1 / 2" "round32 100 = 100" "round32 8 = 8"
  by code_simp+

text \<open>
  C9 at the first triangle of \<open>tri_pair\<close>, in binary32 arithmetic: lane 0 of \<open>ray_packet\<close>
  meets it from the front (determinant 1) and lane 2 from the back (determinant \<open>-1\<close>).
  Both lanes pass; both record \<open>u = v = 1/4\<close>, at the distances 2 and 8. \<^verbatim>\<open>occluded\<close>
  reports lane 2 as occluded, and \<^verbatim>\<open>intersect\<close> ends with the hit of lane 2 on the back
  of the second triangle, at distance 5.
\<close>

theorem double_sided_witness:
  "sign_laws (binary32_ops rcp_truncated) uminus \<and>
   lane_det (binary32_ops rcp_truncated) tri_pair L0 ray_packet L0 = 1 \<and>
   lane_det (binary32_ops rcp_truncated) tri_pair L0 ray_packet L2 = - 1 \<and>
   two_sided_test (binary32_ops rcp_truncated) uminus tri_pair L0 ray_packet L0 \<and>
   two_sided_test (binary32_ops rcp_truncated) uminus tri_pair L0 ray_packet L2 \<and>
   hit_fields (snd (intersect_slot (binary32_ops rcp_truncated) (splat True) tri_pair L0 ray_packet)) L0 =
     (1 / 4, 1 / 4, 2, 7, 1, Vec3 0 0 (- 1)) \<and>
   hit_fields (snd (intersect_slot (binary32_ops rcp_truncated) (splat True) tri_pair L0 ray_packet)) L2 =
     (1 / 4, 1 / 4, 8, 7, 1, Vec3 0 0 (- 1)) \<and>
   (case occluded_slot (binary32_ops rcp_truncated) (splat True) tri_pair L0 ray_packet of
      None \<Rightarrow> False | Some valid \<Rightarrow> lane_at valid L2) \<and>
   lane_at (fst (occluded (binary32_ops rcp_truncated) (splat True) ray_packet tri_pair)) L2 \<and>
   hit_fields (intersect (binary32_ops rcp_truncated) (splat True) ray_packet tri_pair) L2 =
     (1 / 4, 1 / 4, 5, 9, 2, Vec3 0 0 (- 1))"
proof -
  let ?ops = "binary32_ops rcp_truncated"
  let ?p = "snd (intersect_slot ?ops (splat True) tri_pair L0 ray_packet)"
  note laws = sign_laws_binary32 [of rcp_truncated]
  note ev = two_sided_test_def two_sided_hit_def Let_def two_faces num_inputs packet_intervals
    edge_depth_tests_def normalised_def binary32_ops_sel reciprocals_1 binary32_small
    binary32_values round32_zero pair_ids
  have act: "lane_at (splat True) L0" "lane_at (splat True) L2" by (simp_all add: lane_at_splat)
  have ng: "slot3 (tri_Ng tri_pair) L0 = Vec3 0 0 (- 1)" "slot3 (tri_Ng tri_pair) L1 = Vec3 0 0 (- 1)"
    "lane_at (tri_id0 tri_pair) L1 = 9" "lane_at (tri_id1 tri_pair) L1 = 2"
    by code_simp+
  have t: "two_sided_test ?ops uminus tri_pair L0 ray_packet L0"
    "two_sided_test ?ops uminus tri_pair L0 ray_packet L2"
    by (simp_all add: ev)
  have h: "two_sided_hit ?ops uminus tri_pair L0 ray_packet L0 = (1 / 4, 1 / 4, 2, 7, 1, Vec3 0 0 (- 1))"
    "two_sided_hit ?ops uminus tri_pair L0 ray_packet L2 = (1 / 4, 1 / 4, 8, 7, 1, Vec3 0 0 (- 1))"
    by (simp_all add: ev ng)
  have s: "slots tri_pair = [L0, L1]" by code_simp
  note fr = double_sided [OF laws, where valid_i = "splat True" and tri = tri_pair and i = L0
      and ray = ray_packet and l = L0]
  note bk = double_sided [OF laws, where valid_i = "splat True" and tri = tri_pair and i = L0
      and ray = ray_packet and l = L2]
  from fr act t h
  have f1: "hit_fields ?p L0 = (1 / 4, 1 / 4, 2, 7, 1, Vec3 0 0 (- 1))"
    by simp
  from bk act t h
  have b1: "hit_fields ?p L2 = (1 / 4, 1 / 4, 8, 7, 1, Vec3 0 0 (- 1))"
    and b2: "case occluded_slot ?ops (splat True) tri_pair L0 ray_packet of
      None \<Rightarrow> False | Some valid \<Rightarrow> lane_at valid L2"
    and b3: "lane_at (fst (occluded ?ops (splat True) ray_packet tri_pair)) L2"
    by (simp_all add: s)
  from b1 have far: "lane_at (ray_tfar ?p) L2 = 8" by (simp add: hit_fields_def)
  have t1: "two_sided_test ?ops uminus tri_pair L1 ?p L2"
    by (simp add: ev far intersect_slot_inputs)
  have h1: "two_sided_hit ?ops uminus tri_pair L1 ?p L2 = (1 / 4, 1 / 4, 5, 9, 2, Vec3 0 0 (- 1))"
    by (simp add: ev ng)
  from double_sided [OF laws, where valid_i = "splat True" and tri = tri_pair and i = L1
      and ray = ?p and l = L2] act t1 h1
  have "hit_fields (snd (intersect_slot ?ops (splat True) tri_pair L1 ?p)) L2 =
      (1 / 4, 1 / 4, 5, 9, 2, Vec3 0 0 (- 1))"
    by simp
  then have b4: "hit_fields (intersect ?ops (splat True) ray_packet tri_pair) L2 =
     (1 / 4, 1 / 4, 5, 9, 2, Vec3 0 0 (- 1))"
    by (simp only: intersect_two_slots [OF leaf_sizes(5)])
  from laws two_faces(1,5) [of rcp_truncated] t f1 b1 b2 b3 b4 show ?thesis by blast
qed

text \<open>
  In exact arithmetic the sign-free test is the test on the solution of the ray-triangle
  system: \<open>u \<ge> 0\<close>, \<open>v \<ge> 0\<close>, \<open>u + v \<le> 1\<close> and \<open>tnear \<le> t \<le> tfar\<close>, for a determinant of
  either sign.
\<close>

lemma exact_two_sided_test:
  "two_sided_test exact_ops uminus tri i ray l = two_sided_accept tri i ray l"
  by (simp add: sign_valid [OF sign_laws_exact, symmetric] exact_two_sided)

lemma exact_two_sided_hit:
  assumes "lane_det exact_ops tri i ray l \<noteq> 0"
  shows "two_sided_hit exact_ops uminus tri i ray l =
           (mt_u tri i ray l, mt_v tri i ray l, mt_t tri i ray l,
            lane_at (tri_id0 tri) i, lane_at (tri_id1 tri) i, slot3 (tri_Ng tri) i)"
proof -
  from assms have "fne exact_ops (lane_det exact_ops tri i ray l) (fzero exact_ops)"
    by (simp add: exact_ops_sel)
  from sign_fields [OF sign_laws_exact this, symmetric] show ?thesis
    using exact_solution [OF assms]
    by (simp add: slot_fields_def lane_t_def lane_absDet_def exact_ops_sel)
qed

end
